theory Spec2Isabelle
  imports
    Main
    "HOL-Library.Sublist"
    "HOL-Library.Char_ord"
    "HOL-Library.List_Lexorder"
    "HOL-Library.Product_Lexorder"
    "HOL-Library.Multiset"
begin

section \<open>One-off jobs for explorations (core/domain/exp\_jobs\_one\_off.py)\<close>

text \<open>
  A shallow embedding of the eight map/reduce job classes of
  \<^verbatim>\<open>core/domain/exp_jobs_one_off.py\<close> and of the helper
  \<^verbatim>\<open>regenerate_exp_commit_log_model\<close>.

  A \<^verbatim>\<open>map\<close> or \<^verbatim>\<open>reduce\<close> of the source is a Python generator that may
  yield pairs, write to the log, read and write datastore models, and raise. It is
  embedded as a function from the world before the call to an outcome (the raised
  exception, or the returned value) and the world after it. The world holds what the
  generator has yielded, what it has logged, the datastore operations it has issued and
  the datastore tables the job code reads and writes itself.

  The domain services the jobs call (\<^verbatim>\<open>exp_fetchers\<close>, \<^verbatim>\<open>rights_manager\<close>,
  \<^verbatim>\<open>exp_domain\<close>, \<^verbatim>\<open>exp_services\<close>, \<^verbatim>\<open>html_validation_service\<close>), the
  constants of \<^verbatim>\<open>feconf\<close> and Python's \<^verbatim>\<open>ast.literal_eval\<close> are not part of
  the file; they are the fields of an environment record that every job takes as a
  parameter.
\<close>

subsection \<open>Python values, strings and exceptions\<close>

text \<open>The values a job yields, and the JSON values stored in model fields.\<close>

datatype pyval =
    PNone
  | PBool bool
  | PInt int
  | PStr string
  | PList "pyval list"
  | PTuple "pyval list"
  | PDict "(string \<times> pyval) list"

text \<open>
  The exceptions a call may raise: instances of Python's \<^verbatim>\<open>Exception\<close>, by class,
  with the message that \<^verbatim>\<open>'%s' % e\<close> prints. \<^verbatim>\<open>utils.ValidationError\<close> is the one
  class a handler of the file names; every class is caught by \<^verbatim>\<open>except Exception\<close>.
\<close>

datatype exn_class =
    ValidationError
  | AttributeError
  | IndexError
  | KeyError
  | TypeError
  | EntityNotFoundError
  | OtherException

datatype exn = Exn (cls: exn_class) (message: string)

text \<open>Python's \<^verbatim>\<open>'%s' % n\<close> and \<^verbatim>\<open>'%d' % n\<close> for an integer \<open>n\<close>.\<close>

definition digit_char :: "nat \<Rightarrow> char" where
  "digit_char d = char_of (48 + d)"

function str_nat :: "nat \<Rightarrow> string" where
  "str_nat n = (if n < 10 then [digit_char n] else str_nat (n div 10) @ [digit_char (n mod 10)])"
  by pat_completeness auto
termination
  by (relation "measure (\<lambda>n. n)") auto

definition str_int :: "int \<Rightarrow> string" where
  "str_int i = (if i < 0 then CHR ''-'' # str_nat (nat (- i)) else str_nat (nat i))"

text \<open>Python's \<^verbatim>\<open>sub in s\<close> on strings: \<open>sub\<close> occurs in \<open>s\<close> as a contiguous run.\<close>

fun str_contains :: "string \<Rightarrow> string \<Rightarrow> bool" where
  "str_contains [] sub = (sub = [])"
| "str_contains (c # cs) sub = (prefix sub (c # cs) \<or> str_contains cs sub)"

subsection \<open>Storage models and domain objects\<close>

text \<open>
  The fields the jobs read of \<^verbatim>\<open>exp_models.ExplorationModel\<close>. The type \<open>'o\<close> stands
  for the host application's Python objects that the jobs only hand from one service to
  another (the states dictionary of a model, \<^verbatim>\<open>Exploration\<close> and \<^verbatim>\<open>State\<close> domain
  objects, \<^verbatim>\<open>ExplorationChange\<close> objects). Datetimes are integers (microseconds).
\<close>

record 'o exp_model =
  id' :: string
  deleted :: bool
  states_schema_version :: int
  states :: 'o
  version :: int
  title :: string

text \<open>The dictionary \<^verbatim>\<open>versioned_exploration_states\<close> of the migration audit.\<close>

record 'o versioned_states =
  vs_states_schema_version :: int
  vs_states :: 'o

text \<open>\<^verbatim>\<open>rights_domain.ActivityRights\<close>, as the jobs read it.\<close>

record activity_rights =
  status :: string
  viewable_if_private :: bool

text \<open>A version of \<^verbatim>\<open>exp_models.ExplorationRightsModel\<close>.\<close>

record rights_model =
  status :: string
  community_owned :: bool
  created_on :: int

text \<open>\<^verbatim>\<open>exp_models.ExplorationSnapshotMetadataModel\<close>.\<close>

record metadata_model =
  committer_id :: string
  commit_type :: string
  commit_message :: string
  commit_cmds :: pyval
  created_on :: int
  last_updated :: int

text \<open>\<^verbatim>\<open>exp_models.ExplorationCommitLogEntryModel\<close>.\<close>

record commit_log_model =
  id' :: string
  user_id :: string
  commit_type :: string
  commit_message :: string
  commit_cmds :: pyval
  version :: int
  post_commit_status :: string
  post_commit_community_owned :: bool
  post_commit_is_private :: bool
  exploration_id :: string
  created_on :: int
  last_updated :: int

subsection \<open>The world of a generator\<close>

datatype log_entry = LogError string | LogException string

text \<open>
  The datastore operations a job issues: a read or a write of a model class at a key,
  made by the job itself or by the service it calls.
\<close>

datatype datastore_op =
    DsGet string string
  | DsPut string string
  | DsUpdateExploration string string

record world =
  emitted :: "(string \<times> pyval) list"
  logged :: "log_entry list"
  datastore_ops :: "datastore_op list"
  commit_log_models :: "string \<rightharpoonup> commit_log_model"
  rights_models :: "string \<times> int \<rightharpoonup> rights_model"
  snapshot_metadata_models :: "string \<rightharpoonup> metadata_model"

type_synonym 'a gen = "world \<Rightarrow> (exn + 'a) \<times> world"

definition ret :: "'a \<Rightarrow> 'a gen" where
  "ret x w = (Inr x, w)"

definition raise :: "exn \<Rightarrow> 'a gen" where
  "raise e w = (Inl e, w)"

definition bind :: "'a gen \<Rightarrow> ('a \<Rightarrow> 'b gen) \<Rightarrow> 'b gen" where
  "bind m k w = (case m w of (Inl e, w') \<Rightarrow> (Inl e, w') | (Inr x, w') \<Rightarrow> k x w')"

text \<open>The result of a call that touches neither the world nor the datastore.\<close>

definition lift :: "exn + 'a \<Rightarrow> 'a gen" where
  "lift r w = (r, w)"

text \<open>The result of a service call that issues the datastore operation \<open>op\<close>.\<close>

definition datastore_call :: "datastore_op \<Rightarrow> exn + 'a \<Rightarrow> 'a gen" where
  "datastore_call op r w = (r, w\<lparr>datastore_ops := datastore_ops w @ [op]\<rparr>)"

definition yield :: "string \<times> pyval \<Rightarrow> unit gen" where
  "yield kv w = (Inr (), w\<lparr>emitted := emitted w @ [kv]\<rparr>)"

definition logging :: "log_entry \<Rightarrow> unit gen" where
  "logging l w = (Inr (), w\<lparr>logged := logged w @ [l]\<rparr>)"

text \<open>
  \<^verbatim>\<open>try: m  except C as e: h\<close>, where \<open>catches\<close> tells the exceptions of class
  \<^verbatim>\<open>C\<close>; an exception of another class propagates.
\<close>

definition try_except :: "'a gen \<Rightarrow> (exn \<Rightarrow> bool) \<Rightarrow> (exn \<Rightarrow> 'a gen) \<Rightarrow> 'a gen" where
  "try_except m catches h w =
     (case m w of
        (Inl e, w') \<Rightarrow> if catches e then h e w' else (Inl e, w')
      | (Inr x, w') \<Rightarrow> (Inr x, w'))"

text \<open>
  \<^verbatim>\<open>try: x = m  except Exception as e: h; return\<close> followed by the rest \<open>k x\<close> of the
  function: the handler ends the generator, the rest runs when \<open>m\<close> did not raise.
\<close>

definition try_or_return :: "'a gen \<Rightarrow> (exn \<Rightarrow> unit gen) \<Rightarrow> ('a \<Rightarrow> unit gen) \<Rightarrow> unit gen" where
  "try_or_return m h k w =
     (case m w of
        (Inl e, w') \<Rightarrow> h e w'
      | (Inr x, w') \<Rightarrow> k x w')"

text \<open>\<^verbatim>\<open>for x in xs: body\<close> without \<^verbatim>\<open>break\<close>.\<close>

primrec for_each :: "'a list \<Rightarrow> ('a \<Rightarrow> unit gen) \<Rightarrow> unit gen" where
  "for_each [] body = ret ()"
| "for_each (x # xs) body = bind (body x) (\<lambda>_. for_each xs body)"

text \<open>\<^verbatim>\<open>[f(x) for x in xs]\<close> for an \<open>f\<close> that may raise: the first exception ends it.\<close>

primrec map_raising :: "('a \<Rightarrow> exn + 'b) \<Rightarrow> 'a list \<Rightarrow> exn + 'b list" where
  "map_raising f [] = Inr []"
| "map_raising f (x # xs) =
     (case f x of
        Inl e \<Rightarrow> Inl e
      | Inr y \<Rightarrow> (case map_raising f xs of Inl e \<Rightarrow> Inl e | Inr ys \<Rightarrow> Inr (y # ys)))"

subsection \<open>The environment: constants and services outside the file\<close>

text \<open>
  What the file takes from outside, as the fields of a record: three constants of
  \<^verbatim>\<open>feconf\<close> and \<^verbatim>\<open>exp_domain\<close>, the two constants
  \<^verbatim>\<open>ACTIVITY_STATUS_PRIVATE\<close> of \<^verbatim>\<open>rights_domain\<close> and \<^verbatim>\<open>constants\<close>, and the
  functions and methods the jobs call. A call that may raise returns a sum, with the
  exception on the left.

  \<^item> \<open>get_exploration_rights exp_id strict\<close> is
    \<^verbatim>\<open>rights_manager.get_exploration_rights(exp_id, strict=strict)\<close>; it may return
    \<^verbatim>\<open>None\<close>.
  \<^item> \<open>validate exploration strict\<close> is \<^verbatim>\<open>exploration.validate(strict=strict)\<close>.
  \<^item> \<open>update_states_from_model\<close> returns the dictionary it has changed in place.
  \<^item> \<open>states_items exploration\<close> is \<^verbatim>\<open>exploration.states.items()\<close>.
  \<^item> \<open>validate_customization_args\<close> returns its dictionary as the list of its items.
  \<^item> \<open>literal_eval_tags\<close> and \<open>literal_eval_list\<close> are \<^verbatim>\<open>ast.literal_eval\<close> on the
    values of the two jobs whose \<^verbatim>\<open>reduce\<close> decodes them, typed by what the
    \<^verbatim>\<open>map\<close> of the job yields: a pair of an exploration id and a list of
    dictionaries, and a list of strings. On any other string they raise.
  \<^item> \<open>update_timestamps\<close> returns the model it has changed in place.
  \<^item> \<open>format_value\<close> and \<open>format_datetime\<close> are Python's \<^verbatim>\<open>'%s' % v\<close>.

  A service is a function of its arguments: what it reads from the datastore is not
  written by a job while the job still reads it (\<^verbatim>\<open>update_exploration\<close>, the one
  service that writes, is the last call of its \<^verbatim>\<open>map\<close>). The jobs record the
  calls that go to the datastore as datastore operations.
\<close>

record 'o env =
  CURRENT_STATE_SCHEMA_VERSION :: int
  MIGRATION_BOT_USERNAME :: string
  CMD_MIGRATE_STATES_SCHEMA_TO_LATEST_VERSION :: string
  rights_domain_ACTIVITY_STATUS_PRIVATE :: string
  constants_ACTIVITY_STATUS_PRIVATE :: string
  get_exploration_from_model :: "'o exp_model \<Rightarrow> exn + 'o"
  get_exploration_by_id :: "string \<Rightarrow> exn + 'o"
  get_exploration_rights :: "string \<Rightarrow> bool \<Rightarrow> exn + activity_rights option"
  validate :: "'o \<Rightarrow> bool \<Rightarrow> exn + unit"
  update_states_from_model :: "'o versioned_states \<Rightarrow> int \<Rightarrow> string \<Rightarrow> exn + 'o versioned_states"
  ExplorationChange :: "(string \<times> string) list \<Rightarrow> exn + 'o"
  update_exploration :: "string \<Rightarrow> string \<Rightarrow> 'o list \<Rightarrow> string \<Rightarrow> exn + unit"
  states_items :: "'o \<Rightarrow> (string \<times> 'o) list"
  state_get_all_html_content_strings :: "'o \<Rightarrow> exn + string list"
  exploration_get_all_html_content_strings :: "'o \<Rightarrow> exn + string list"
  validate_math_content_attribute_in_html :: "string \<Rightarrow> exn + pyval list"
  validate_customization_args :: "string list \<Rightarrow> exn + (string \<times> string list) list"
  literal_eval_tags :: "string \<Rightarrow> exn + string \<times> (string \<times> pyval) list list"
  literal_eval_list :: "string \<Rightarrow> exn + string list"
  ExplorationCommitLogEntryModel_create ::
    "string \<Rightarrow> int \<Rightarrow> string \<Rightarrow> string \<Rightarrow> string \<Rightarrow> pyval \<Rightarrow> string \<Rightarrow> bool
      \<Rightarrow> exn + commit_log_model"
  update_timestamps :: "commit_log_model \<Rightarrow> bool \<Rightarrow> exn + commit_log_model"
  format_value :: "pyval \<Rightarrow> string"
  format_datetime :: "int \<Rightarrow> string"

subsection \<open>ExplorationValidityJobManager\<close>

text \<open>
  \<^verbatim>\<open>rights_manager.get_exploration_rights(item.id)\<close> is called with its default
  \<^verbatim>\<open>strict=True\<close>; were it to return \<^verbatim>\<open>None\<close>, reading \<^verbatim>\<open>exp_rights.status\<close>
  inside the \<^verbatim>\<open>try\<close> raises an AttributeError, which the handler does not catch.
  \<^verbatim>\<open>values\<close> of a \<^verbatim>\<open>reduce\<close> is the list of strings the map/reduce framework
  hands to it: the yielded values of one key, each as its string.
\<close>

definition ExplorationValidityJobManager_map :: "'o env \<Rightarrow> 'o exp_model \<Rightarrow> unit gen" where
  "ExplorationValidityJobManager_map env item =
     (if deleted item then ret ()
      else
        bind (lift (get_exploration_from_model env item)) (\<lambda>exploration.
        bind (datastore_call (DsGet ''ExplorationRightsModel'' (exp_model.id' item))
                (get_exploration_rights env (exp_model.id' item) True)) (\<lambda>exp_rights.
        try_except
          (case exp_rights of
             None \<Rightarrow> raise (Exn AttributeError ''NoneType object has no attribute status'')
           | Some r \<Rightarrow>
               if activity_rights.status r = rights_domain_ACTIVITY_STATUS_PRIVATE env
               then lift (validate env exploration False)
               else lift (validate env exploration True))
          (\<lambda>e. cls e = ValidationError)
          (\<lambda>e. yield (exp_model.id' item, PStr (message e))))))"

definition ExplorationValidityJobManager_reduce :: "string \<Rightarrow> string list \<Rightarrow> unit gen" where
  "ExplorationValidityJobManager_reduce key values = yield (key, PList (map PStr values))"

subsection \<open>ExplorationMigrationAuditJob\<close>

definition migration_error_message :: "string \<Rightarrow> int \<Rightarrow> exn \<Rightarrow> string" where
  "migration_error_message exp_id states_schema_version' e =
     ''Exploration '' @ exp_id @ '' failed migration to states v'' @
       str_int (states_schema_version' + 1) @ '': '' @ message e"

text \<open>The \<^verbatim>\<open>except Exception\<close> handler of the loop, up to its \<^verbatim>\<open>break\<close>.\<close>

definition migration_error_handler :: "'o exp_model \<Rightarrow> int \<Rightarrow> exn \<Rightarrow> unit gen" where
  "migration_error_handler item states_schema_version' e =
     bind (logging (LogException
             (migration_error_message (exp_model.id' item) states_schema_version' e))) (\<lambda>_.
     yield (''MIGRATION_ERROR'',
            PStr (migration_error_message (exp_model.id' item) states_schema_version' e)))"

text \<open>The \<^verbatim>\<open>if\<close> that ends the loop body.\<close>

definition report_success :: "'o env \<Rightarrow> int \<Rightarrow> unit gen" where
  "report_success env states_schema_version' =
     (if states_schema_version' = CURRENT_STATE_SCHEMA_VERSION env
      then yield (''SUCCESS'', PInt 1) else ret ())"

text \<open>
  The \<^verbatim>\<open>while\<close> loop. \<^verbatim>\<open>update_states_from_model\<close> changes the dictionary it is
  given in place; the model hands the changed dictionary to the next iteration.
\<close>

function migration_audit_loop ::
  "'o env \<Rightarrow> 'o exp_model \<Rightarrow> 'o versioned_states \<Rightarrow> int \<Rightarrow> unit gen" where
  "migration_audit_loop env item versioned_exploration_states states_schema_version' w =
     (if states_schema_version' < CURRENT_STATE_SCHEMA_VERSION env then
        (case update_states_from_model env versioned_exploration_states states_schema_version'
                (exp_model.id' item) of
           Inl e \<Rightarrow> migration_error_handler item states_schema_version' e w
         | Inr versioned_exploration_states' \<Rightarrow>
             (case report_success env (states_schema_version' + 1) w of
                (Inl e, w') \<Rightarrow> (Inl e, w')
              | (Inr _, w') \<Rightarrow>
                  migration_audit_loop env item versioned_exploration_states'
                    (states_schema_version' + 1) w'))
      else (Inr (), w))"
  by pat_completeness auto
termination
  by (relation "measure (\<lambda>(env, item, ves, ssv, w). nat (CURRENT_STATE_SCHEMA_VERSION env - ssv))")
    auto

declare migration_audit_loop.simps [simp del]

definition ExplorationMigrationAuditJob_map :: "'o env \<Rightarrow> 'o exp_model \<Rightarrow> unit gen" where
  "ExplorationMigrationAuditJob_map env item =
     (if deleted item then ret ()
      else
        migration_audit_loop env item
          \<lparr>vs_states_schema_version = states_schema_version item, vs_states = states item\<rparr>
          (states_schema_version item))"

definition ExplorationMigrationAuditJob_reduce :: "string \<Rightarrow> string list \<Rightarrow> unit gen" where
  "ExplorationMigrationAuditJob_reduce key values =
     (if key = ''SUCCESS'' then yield (key, PInt (int (length values)))
      else yield (key, PList (map PStr values)))"

subsection \<open>ExplorationMigrationJobManager\<close>

definition ExplorationMigrationJobManager_map :: "'o env \<Rightarrow> 'o exp_model \<Rightarrow> unit gen" where
  "ExplorationMigrationJobManager_map env item =
     (if deleted item then ret ()
      else
        bind (datastore_call (DsGet ''ExplorationModel'' (exp_model.id' item))
                (get_exploration_by_id env (exp_model.id' item))) (\<lambda>old_exploration.
        try_or_return (lift (validate env old_exploration False))
          (\<lambda>e. logging (LogError
                  (''Exploration '' @ exp_model.id' item @
                   '' failed non-strict validation: '' @ message e)))
          (\<lambda>_.
            if states_schema_version item \<noteq> CURRENT_STATE_SCHEMA_VERSION env then
              bind (lift (ExplorationChange env
                      [(''cmd'', CMD_MIGRATE_STATES_SCHEMA_TO_LATEST_VERSION env),
                       (''from_version'', str_int (states_schema_version item)),
                       (''to_version'', str_int (CURRENT_STATE_SCHEMA_VERSION env))])) (\<lambda>change.
              bind (datastore_call
                      (DsUpdateExploration (MIGRATION_BOT_USERNAME env) (exp_model.id' item))
                      (update_exploration env (MIGRATION_BOT_USERNAME env) (exp_model.id' item)
                         [change]
                         (''Update exploration states from schema version '' @
                          str_int (states_schema_version item) @ '' to '' @
                          str_int (CURRENT_STATE_SCHEMA_VERSION env) @ ''.''))) (\<lambda>_.
              yield (''SUCCESS'', PStr (exp_model.id' item))))
            else ret ())))"

definition ExplorationMigrationJobManager_reduce :: "string \<Rightarrow> string list \<Rightarrow> unit gen" where
  "ExplorationMigrationJobManager_reduce key values = yield (key, PInt (int (length values)))"

subsection \<open>ExplorationRteMathContentValidationOneOffJob\<close>

text \<open>The loop over \<^verbatim>\<open>exploration.states.items()\<close>, with the list it appends to.\<close>

fun invalid_tags_info_in_exp :: "'o env \<Rightarrow> (string \<times> 'o) list \<Rightarrow> pyval list \<Rightarrow> exn + pyval list" where
  "invalid_tags_info_in_exp env [] acc = Inr acc"
| "invalid_tags_info_in_exp env ((state_name, state) # rest) acc =
     (case state_get_all_html_content_strings env state of
        Inl e \<Rightarrow> Inl e
      | Inr html_strings \<Rightarrow>
          (case validate_math_content_attribute_in_html env (concat html_strings) of
             Inl e \<Rightarrow> Inl e
           | Inr error_list \<Rightarrow>
               if length error_list > 0 then
                 invalid_tags_info_in_exp env rest
                   (acc @ [PDict [(''state_name'', PStr state_name),
                                  (''error_list'', PList error_list),
                                  (''no_of_invalid_tags'', PInt (int (length error_list)))]])
               else invalid_tags_info_in_exp env rest acc))"

definition ExplorationRteMathContentValidationOneOffJob_map ::
  "'o env \<Rightarrow> 'o exp_model \<Rightarrow> unit gen" where
  "ExplorationRteMathContentValidationOneOffJob_map env item =
     (if deleted item then ret ()
      else
        bind (lift (get_exploration_from_model env item)) (\<lambda>exploration.
        bind (lift (invalid_tags_info_in_exp env (states_items env exploration) [])) (\<lambda>info.
        if length info > 0
        then yield (''Found invalid tags'', PTuple [PStr (exp_model.id' item), PList info])
        else ret ())))"

text \<open>Python dictionaries with string keys, in insertion order.\<close>

fun dict_set :: "(string \<times> 'v) list \<Rightarrow> string \<Rightarrow> 'v \<Rightarrow> (string \<times> 'v) list" where
  "dict_set [] k v = [(k, v)]"
| "dict_set ((k', v') # d) k v = (if k' = k then (k, v) # d else (k', v') # dict_set d k v)"

definition dict_del :: "(string \<times> 'v) list \<Rightarrow> string \<Rightarrow> (string \<times> 'v) list" where
  "dict_del d k = filter (\<lambda>kv. fst kv \<noteq> k) d"

text \<open>
  The inner loop of \<^verbatim>\<open>reduce\<close> over the dictionaries of one exploration: the running
  count and the list \<^verbatim>\<open>invalid_tags_info[exp_id]\<close>. A dictionary without the key
  raises KeyError; a count that is no number raises TypeError.
\<close>

fun count_invalid_tags ::
  "(string \<times> pyval) list list \<Rightarrow> int \<Rightarrow> pyval list \<Rightarrow> exn + int \<times> pyval list" where
  "count_invalid_tags [] no_of_invalid_tags acc = Inr (no_of_invalid_tags, acc)"
| "count_invalid_tags (value # rest) no_of_invalid_tags acc =
     (case map_of value ''no_of_invalid_tags'' of
        None \<Rightarrow> Inl (Exn KeyError ''no_of_invalid_tags'')
      | Some (PInt n) \<Rightarrow>
          count_invalid_tags rest (no_of_invalid_tags + n)
            (acc @ [PDict (dict_del value ''no_of_invalid_tags'')])
      | Some (PBool b) \<Rightarrow>
          count_invalid_tags rest (no_of_invalid_tags + (if b then 1 else 0))
            (acc @ [PDict (dict_del value ''no_of_invalid_tags'')])
      | Some _ \<Rightarrow> Inl (Exn TypeError ''unsupported operand type(s) for +=''))"

text \<open>The outer loop over \<^verbatim>\<open>final_values\<close>.\<close>

fun collect_invalid_tags ::
  "(string \<times> (string \<times> pyval) list list) list \<Rightarrow> int \<Rightarrow> (string \<times> pyval) list
     \<Rightarrow> exn + int \<times> (string \<times> pyval) list" where
  "collect_invalid_tags [] no_of_invalid_tags invalid_tags_info =
     Inr (no_of_invalid_tags, invalid_tags_info)"
| "collect_invalid_tags ((exp_id, in_exp) # rest) no_of_invalid_tags invalid_tags_info =
     (case count_invalid_tags in_exp no_of_invalid_tags [] of
        Inl e \<Rightarrow> Inl e
      | Inr (no_of_invalid_tags', vals) \<Rightarrow>
          collect_invalid_tags rest no_of_invalid_tags'
            (dict_set invalid_tags_info exp_id (PList vals)))"

definition ExplorationRteMathContentValidationOneOffJob_reduce ::
  "'o env \<Rightarrow> string \<Rightarrow> string list \<Rightarrow> unit gen" where
  "ExplorationRteMathContentValidationOneOffJob_reduce env key values =
     bind (lift (map_raising (literal_eval_tags env) values)) (\<lambda>final_values.
     bind (lift (collect_invalid_tags final_values 0 [])) (\<lambda>(no_of_invalid_tags, invalid_tags_info).
     bind (yield (''Overall result.'',
             PDict [(''no_of_explorations_with_no_svgs'', PInt (int (length final_values))),
                    (''no_of_invalid_tags'', PInt no_of_invalid_tags)])) (\<lambda>_.
     yield (''Detailed information on invalid tags.'', PDict invalid_tags_info))))"

subsection \<open>ViewableExplorationsAuditJob\<close>

definition ViewableExplorationsAuditJob_map :: "'o env \<Rightarrow> 'o exp_model \<Rightarrow> unit gen" where
  "ViewableExplorationsAuditJob_map env item =
     (if deleted item then ret ()
      else
        bind (datastore_call (DsGet ''ExplorationRightsModel'' (exp_model.id' item))
                (get_exploration_rights env (exp_model.id' item) False)) (\<lambda>exploration_rights.
        case exploration_rights of
          None \<Rightarrow> ret ()
        | Some r \<Rightarrow>
            if activity_rights.status r = constants_ACTIVITY_STATUS_PRIVATE env
               \<and> viewable_if_private r
            then yield (exp_model.id' item, PStr (title item))
            else ret ()))"

definition ViewableExplorationsAuditJob_reduce :: "string \<Rightarrow> string list \<Rightarrow> unit gen" where
  "ViewableExplorationsAuditJob_reduce key values = yield (key, PList (map PStr values))"

subsection \<open>RTECustomizationArgsValidationOneOffJob\<close>

definition RTECustomizationArgsValidationOneOffJob_map :: "'o env \<Rightarrow> 'o exp_model \<Rightarrow> unit gen" where
  "RTECustomizationArgsValidationOneOffJob_map env item =
     (if deleted item then ret ()
      else
        try_or_return (lift (get_exploration_from_model env item))
          (\<lambda>e. yield (''Error '' @ message e @ '' when loading exploration'',
                      PList [PStr (exp_model.id' item)]))
          (\<lambda>exploration.
            bind (lift (exploration_get_all_html_content_strings env exploration)) (\<lambda>html_list.
            bind (lift (validate_customization_args env html_list)) (\<lambda>err_dict.
            for_each err_dict (\<lambda>(key, err_value).
              yield (key, PList (map PStr (err_value @ [''Exp ID: '' @ exp_model.id' item]))))))))"

text \<open>Python's \<^verbatim>\<open>xs[i]\<close> for an index that is not negative.\<close>

definition list_get :: "'a list \<Rightarrow> nat \<Rightarrow> exn + 'a" where
  "list_get xs i =
     (if i < length xs then Inr (xs ! i) else Inl (Exn IndexError ''list index out of range''))"

text \<open>
  The pairing loop of \<^verbatim>\<open>reduce\<close>. The tuple reads
  \<^verbatim>\<open>flattened_values[index + 1]\<close> first, then \<^verbatim>\<open>flattened_values[index]\<close>.
\<close>

function pairing_loop ::
  "string list \<Rightarrow> nat \<Rightarrow> (string \<times> string) list \<Rightarrow> exn + (string \<times> string) list" where
  "pairing_loop flattened_values index output_values =
     (if index < length flattened_values then
        (case list_get flattened_values (index + 1) of
           Inl e \<Rightarrow> Inl e
         | Inr exp_id \<Rightarrow>
             (case list_get flattened_values index of
                Inl e \<Rightarrow> Inl e
              | Inr err \<Rightarrow>
                  pairing_loop flattened_values (index + 2) (output_values @ [(exp_id, err)])))
      else Inr output_values)"
  by pat_completeness auto
termination
  by (relation "measure (\<lambda>(flattened_values, index, output_values).
        length flattened_values - index)") auto

declare pairing_loop.simps [simp del]

text \<open>
  The values of this job are the strings of the lists of strings that its
  \<^verbatim>\<open>map\<close> yields, so \<^verbatim>\<open>ast.literal_eval\<close> gives a list of strings or raises.
  \<^verbatim>\<open>output_values.sort()\<close> orders the tuples of strings lexicographically.
\<close>

definition RTECustomizationArgsValidationOneOffJob_reduce ::
  "'o env \<Rightarrow> string \<Rightarrow> string list \<Rightarrow> unit gen" where
  "RTECustomizationArgsValidationOneOffJob_reduce env key values =
     bind (lift (map_raising (literal_eval_list env) values)) (\<lambda>final_values.
     if str_contains key ''loading exploration''
     then yield (key, PList (map PStr (concat final_values)))
     else
       bind (lift (pairing_loop (concat final_values) 0 [])) (\<lambda>output_values.
       yield (key, PList (map (\<lambda>(exp_id, err). PTuple [PStr exp_id, PStr err])
                            (sort output_values)))))"

subsection \<open>regenerate\_exp\_commit\_log\_model\<close>

text \<open>
  The calls of the storage layer that the file makes itself.
  \<^verbatim>\<open>get_by_id\<close> gives the model stored at a key or \<^verbatim>\<open>None\<close>;
  \<^verbatim>\<open>ExplorationRightsModel.get(id, strict, version)\<close> gives that version of the
  rights model, and for a version that does not exist \<^verbatim>\<open>None\<close>, or an exception when
  \<^verbatim>\<open>strict\<close>; \<^verbatim>\<open>put\<close> stores a model at its id.
\<close>

definition ExplorationSnapshotMetadataModel_get_by_id :: "string \<Rightarrow> metadata_model option gen" where
  "ExplorationSnapshotMetadataModel_get_by_id key w =
     (Inr (snapshot_metadata_models w key),
      w\<lparr>datastore_ops := datastore_ops w @ [DsGet ''ExplorationSnapshotMetadataModel'' key]\<rparr>)"

definition ExplorationCommitLogEntryModel_get_by_id :: "string \<Rightarrow> commit_log_model option gen" where
  "ExplorationCommitLogEntryModel_get_by_id key w =
     (Inr (commit_log_models w key),
      w\<lparr>datastore_ops := datastore_ops w @ [DsGet ''ExplorationCommitLogEntryModel'' key]\<rparr>)"

definition ExplorationRightsModel_get :: "string \<Rightarrow> bool \<Rightarrow> int \<Rightarrow> rights_model option gen" where
  "ExplorationRightsModel_get exp_id strict rights_version w =
     ((case rights_models w (exp_id, rights_version) of
         None \<Rightarrow>
           if strict then Inl (Exn EntityNotFoundError (exp_id @ ''-'' @ str_int rights_version))
           else Inr None
       | Some rights \<Rightarrow> Inr (Some rights)),
      w\<lparr>datastore_ops := datastore_ops w @
           [DsGet ''ExplorationRightsModel'' (exp_id @ ''-'' @ str_int rights_version)]\<rparr>)"

definition put :: "commit_log_model \<Rightarrow> unit gen" where
  "put model w =
     (Inr (),
      w\<lparr>commit_log_models := (commit_log_models w)(commit_log_model.id' model \<mapsto> model),
        datastore_ops := datastore_ops w @
           [DsPut ''ExplorationCommitLogEntryModel'' (commit_log_model.id' model)]\<rparr>)"

text \<open>
  The loop over \<^verbatim>\<open>python_utils.RANGE(2, version + 1)\<close>, with the variable
  \<^verbatim>\<open>required_rights_model\<close>. Reading \<^verbatim>\<open>metadata_model.created_on\<close> of a metadata
  model that is \<^verbatim>\<open>None\<close> raises an AttributeError.
\<close>

fun rights_scan ::
  "string \<Rightarrow> metadata_model option \<Rightarrow> int list \<Rightarrow> rights_model \<Rightarrow> rights_model gen" where
  "rights_scan exp_id metadata_model [] required_rights_model w = (Inr required_rights_model, w)"
| "rights_scan exp_id metadata_model (rights_version # rest) required_rights_model w =
     (case ExplorationRightsModel_get exp_id False rights_version w of
        (Inl e, w') \<Rightarrow> (Inl e, w')
      | (Inr None, w') \<Rightarrow> (Inr required_rights_model, w')
      | (Inr (Some rights), w') \<Rightarrow>
          (case metadata_model of
             None \<Rightarrow> (Inl (Exn AttributeError ''NoneType object has no attribute created_on''), w')
           | Some metadata \<Rightarrow>
               if rights_model.created_on rights \<le> metadata_model.created_on metadata
               then rights_scan exp_id metadata_model rest rights w'
               else (Inr required_rights_model, w')))"

definition regenerate_exp_commit_log_model ::
  "'o env \<Rightarrow> 'o exp_model \<Rightarrow> int \<Rightarrow> commit_log_model gen" where
  "regenerate_exp_commit_log_model env exp_model version' =
     bind (ExplorationSnapshotMetadataModel_get_by_id
             (exp_model.id' exp_model @ ''-'' @ str_int version')) (\<lambda>metadata_model.
     bind (ExplorationRightsModel_get (exp_model.id' exp_model) True 1) (\<lambda>first_rights_model.
     case first_rights_model of
       None \<Rightarrow> raise (Exn AttributeError ''NoneType object has no attribute status'')
     | Some rights_1 \<Rightarrow>
     bind (rights_scan (exp_model.id' exp_model) metadata_model [2..version'] rights_1)
       (\<lambda>required_rights_model.
     case metadata_model of
       None \<Rightarrow> raise (Exn AttributeError ''NoneType object has no attribute committer_id'')
     | Some metadata \<Rightarrow>
     bind (lift (ExplorationCommitLogEntryModel_create env
             (exp_model.id' exp_model) version'
             (committer_id metadata)
             (metadata_model.commit_type metadata)
             (metadata_model.commit_message metadata)
             (metadata_model.commit_cmds metadata)
             (rights_model.status required_rights_model)
             (community_owned required_rights_model))) (\<lambda>commit_log_model.
     ret (commit_log_model
            \<lparr>exploration_id := exp_model.id' exp_model,
             created_on := metadata_model.created_on metadata,
             last_updated := metadata_model.last_updated metadata\<rparr>)))))"

subsection \<open>RegenerateMissingExpCommitLogModels\<close>

definition RegenerateMissingExpCommitLogModels_map :: "'o env \<Rightarrow> 'o exp_model \<Rightarrow> unit gen" where
  "RegenerateMissingExpCommitLogModels_map env item =
     (if deleted item then ret ()
      else
        for_each [1..exp_model.version item] (\<lambda>version.
          bind (ExplorationCommitLogEntryModel_get_by_id
                  (''exploration-'' @ exp_model.id' item @ ''-'' @ str_int version))
            (\<lambda>commit_log_model.
          case commit_log_model of
            Some _ \<Rightarrow> ret ()
          | None \<Rightarrow>
              bind (regenerate_exp_commit_log_model env item version) (\<lambda>regenerated.
              bind (lift (update_timestamps env regenerated False)) (\<lambda>stamped.
              bind (put stamped) (\<lambda>_.
              yield (''Regenerated Exploration Commit Log Model: version '' @ str_int version,
                     PStr (exp_model.id' item))))))))"

definition RegenerateMissingExpCommitLogModels_reduce :: "string \<Rightarrow> string list \<Rightarrow> unit gen" where
  "RegenerateMissingExpCommitLogModels_reduce key values = yield (key, PList (map PStr values))"

subsection \<open>ExpCommitLogModelRegenerationValidator\<close>

text \<open>Python's \<^verbatim>\<open>getattr(model, field)\<close> for the fields the validator compares.\<close>

definition getattr :: "commit_log_model \<Rightarrow> string \<Rightarrow> pyval" where
  "getattr model field =
     (if field = ''user_id'' then PStr (user_id model)
      else if field = ''commit_type'' then PStr (commit_log_model.commit_type model)
      else if field = ''commit_message'' then PStr (commit_log_model.commit_message model)
      else if field = ''commit_cmds'' then commit_log_model.commit_cmds model
      else if field = ''version'' then PInt (commit_log_model.version model)
      else if field = ''post_commit_status'' then PStr (post_commit_status model)
      else if field = ''post_commit_community_owned'' then PBool (post_commit_community_owned model)
      else if field = ''post_commit_is_private'' then PBool (post_commit_is_private model)
      else if field = ''exploration_id'' then PStr (exploration_id model)
      else PNone)"

definition getattr_time :: "commit_log_model \<Rightarrow> string \<Rightarrow> int" where
  "getattr_time model field =
     (if field = ''created_on'' then commit_log_model.created_on model
      else commit_log_model.last_updated model)"

definition mismatch_message :: "string \<Rightarrow> string \<Rightarrow> string \<Rightarrow> string" where
  "mismatch_message field original regenerated =
     field @ '' in original model: '' @ original @ '', in regenerated model: '' @ regenerated"

text \<open>\<^verbatim>\<open>datetime.timedelta(minutes=1)\<close>, in microseconds.\<close>

definition one_minute :: int where
  "one_minute = 60000000"

text \<open>The body of the loop over the versions, from the \<^verbatim>\<open>get_by_id\<close> on.\<close>

definition validate_version :: "'o env \<Rightarrow> 'o exp_model \<Rightarrow> int \<Rightarrow> unit gen" where
  "validate_version env item version' =
     bind (ExplorationCommitLogEntryModel_get_by_id
             (''exploration-'' @ exp_model.id' item @ ''-'' @ str_int version'))
       (\<lambda>commit_log_model.
     case commit_log_model of
       None \<Rightarrow> ret ()
     | Some original \<Rightarrow>
         bind (regenerate_exp_commit_log_model env item version') (\<lambda>regenerated.
         bind (for_each
                 [''user_id'', ''commit_type'', ''commit_message'', ''commit_cmds'', ''version'',
                  ''post_commit_status'', ''post_commit_community_owned'',
                  ''post_commit_is_private'', ''exploration_id'']
                 (\<lambda>field.
                   if getattr original field \<noteq> getattr regenerated field
                   then yield (''Mismatch between original model and regenerated model'',
                          PStr (mismatch_message field
                                  (format_value env (getattr original field))
                                  (format_value env (getattr regenerated field))))
                   else ret ())) (\<lambda>_.
         for_each [''created_on'', ''last_updated'']
           (\<lambda>field.
             if getattr_time original field > getattr_time regenerated field + one_minute
                \<or> getattr_time original field < getattr_time regenerated field - one_minute
             then yield (''Mismatch between original model and regenerated model'',
                    PStr (mismatch_message field
                            (format_datetime env (getattr_time original field))
                            (format_datetime env (getattr_time regenerated field))))
             else ret ()))))"

text \<open>\<^verbatim>\<open>item.id[-1]\<close> raises an IndexError on the empty string.\<close>

definition ExpCommitLogModelRegenerationValidator_map :: "'o env \<Rightarrow> 'o exp_model \<Rightarrow> unit gen" where
  "ExpCommitLogModelRegenerationValidator_map env item =
     (if deleted item then ret ()
      else if exp_model.id' item = [] then raise (Exn IndexError ''string index out of range'')
      else if last (exp_model.id' item) < CHR ''a'' \<or> last (exp_model.id' item) > CHR ''j''
      then ret ()
      else for_each [1..exp_model.version item] (validate_version env item))"

definition ExpCommitLogModelRegenerationValidator_reduce :: "string \<Rightarrow> string list \<Rightarrow> unit gen" where
  "ExpCommitLogModelRegenerationValidator_reduce key values = yield (key, PList (map PStr values))"

subsection \<open>The jobs of the file\<close>

datatype job =
    ExplorationValidityJobManager
  | ExplorationMigrationAuditJob
  | ExplorationMigrationJobManager
  | ExplorationRteMathContentValidationOneOffJob
  | ViewableExplorationsAuditJob
  | RTECustomizationArgsValidationOneOffJob
  | RegenerateMissingExpCommitLogModels
  | ExpCommitLogModelRegenerationValidator

fun job_map :: "job \<Rightarrow> 'o env \<Rightarrow> 'o exp_model \<Rightarrow> unit gen" where
  "job_map ExplorationValidityJobManager = ExplorationValidityJobManager_map"
| "job_map ExplorationMigrationAuditJob = ExplorationMigrationAuditJob_map"
| "job_map ExplorationMigrationJobManager = ExplorationMigrationJobManager_map"
| "job_map ExplorationRteMathContentValidationOneOffJob =
     ExplorationRteMathContentValidationOneOffJob_map"
| "job_map ViewableExplorationsAuditJob = ViewableExplorationsAuditJob_map"
| "job_map RTECustomizationArgsValidationOneOffJob = RTECustomizationArgsValidationOneOffJob_map"
| "job_map RegenerateMissingExpCommitLogModels = RegenerateMissingExpCommitLogModels_map"
| "job_map ExpCommitLogModelRegenerationValidator = ExpCommitLogModelRegenerationValidator_map"

fun job_reduce :: "job \<Rightarrow> 'o env \<Rightarrow> string \<Rightarrow> string list \<Rightarrow> unit gen" where
  "job_reduce ExplorationValidityJobManager env = ExplorationValidityJobManager_reduce"
| "job_reduce ExplorationMigrationAuditJob env = ExplorationMigrationAuditJob_reduce"
| "job_reduce ExplorationMigrationJobManager env = ExplorationMigrationJobManager_reduce"
| "job_reduce ExplorationRteMathContentValidationOneOffJob env =
     ExplorationRteMathContentValidationOneOffJob_reduce env"
| "job_reduce ViewableExplorationsAuditJob env = ViewableExplorationsAuditJob_reduce"
| "job_reduce RTECustomizationArgsValidationOneOffJob env =
     RTECustomizationArgsValidationOneOffJob_reduce env"
| "job_reduce RegenerateMissingExpCommitLogModels env = RegenerateMissingExpCommitLogModels_reduce"
| "job_reduce ExpCommitLogModelRegenerationValidator env =
     ExpCommitLogModelRegenerationValidator_reduce"

section \<open>Notions used in the statements\<close>

text \<open>What a generator yields when it is run in the world \<open>w\<close>.\<close>

definition new_emissions :: "unit gen \<Rightarrow> world \<Rightarrow> (string \<times> pyval) list" where
  "new_emissions g w = drop (length (emitted w)) (emitted (snd (g w)))"

text \<open>
  The migration steps of an exploration, one per schema version: \<open>n\<close> steps from
  version \<open>v\<close> on, each applied to the states the step before it produced. The result
  is the migrated states, or the version and the exception of the first step that fails.
\<close>

primrec migration_steps ::
  "'o env \<Rightarrow> string \<Rightarrow> nat \<Rightarrow> 'o versioned_states \<Rightarrow> int \<Rightarrow> int \<times> exn + 'o versioned_states" where
  "migration_steps env exp_id 0 ves v = Inr ves"
| "migration_steps env exp_id (Suc n) ves v =
     (case update_states_from_model env ves v exp_id of
        Inl e \<Rightarrow> Inl (v, e)
      | Inr ves' \<Rightarrow> migration_steps env exp_id n ves' (v + 1))"

definition all_migration_steps ::
  "'o env \<Rightarrow> 'o exp_model \<Rightarrow> int \<times> exn + 'o versioned_states" where
  "all_migration_steps env item =
     migration_steps env (exp_model.id' item)
       (nat (CURRENT_STATE_SCHEMA_VERSION env - states_schema_version item))
       \<lparr>vs_states_schema_version = states_schema_version item, vs_states = states item\<rparr>
       (states_schema_version item)"

text \<open>
  The audit migrates an exploration: its schema version is below the current one and
  every step up to the current version succeeds.
\<close>

definition migrates :: "'o env \<Rightarrow> 'o exp_model \<Rightarrow> bool" where
  "migrates env item =
     (states_schema_version item < CURRENT_STATE_SCHEMA_VERSION env
      \<and> (case all_migration_steps env item of Inl _ \<Rightarrow> False | Inr _ \<Rightarrow> True))"

text \<open>
  Version \<open>v\<close> of the rights model of an exploration exists and was created no later
  than the snapshot metadata model.
\<close>

definition created_in_time :: "world \<Rightarrow> string \<Rightarrow> metadata_model \<Rightarrow> int \<Rightarrow> bool" where
  "created_in_time w exp_id metadata v =
     (case rights_models w (exp_id, v) of
        None \<Rightarrow> False
      | Some rights \<Rightarrow> rights_model.created_on rights \<le> metadata_model.created_on metadata)"

text \<open>
  The rights versions the commit log entry of version \<open>version'\<close> may be built from:
  version 1, and every version from 2 to \<open>version'\<close> up to which all versions from 2 on
  were created in time.
\<close>

definition rights_version_qualifies ::
  "world \<Rightarrow> string \<Rightarrow> metadata_model \<Rightarrow> int \<Rightarrow> int \<Rightarrow> bool" where
  "rights_version_qualifies w exp_id metadata version' v =
     (v = 1 \<or> (2 \<le> v \<and> v \<le> version'
               \<and> (\<forall>u\<in>set [2..v]. created_in_time w exp_id metadata u)))"

definition rights_read :: "string \<Rightarrow> int \<Rightarrow> datastore_op" where
  "rights_read exp_id v = DsGet ''ExplorationRightsModel'' (exp_id @ ''-'' @ str_int v)"

text \<open>
  The commit log model that \<^verbatim>\<open>regenerate_exp_commit_log_model\<close> returns when it
  takes the status and the ownership from the rights model \<open>rights\<close>: what
  \<^verbatim>\<open>ExplorationCommitLogEntryModel.create\<close> gives (or raises) for them, with the three
  attributes the function sets afterwards.
\<close>

definition commit_log_built_from ::
  "'o env \<Rightarrow> 'o exp_model \<Rightarrow> int \<Rightarrow> metadata_model \<Rightarrow> rights_model \<Rightarrow> exn + commit_log_model" where
  "commit_log_built_from env exp_model version' metadata rights =
     (case ExplorationCommitLogEntryModel_create env (exp_model.id' exp_model) version'
             (committer_id metadata) (metadata_model.commit_type metadata)
             (metadata_model.commit_message metadata) (metadata_model.commit_cmds metadata)
             (rights_model.status rights) (community_owned rights) of
        Inl e \<Rightarrow> Inl e
      | Inr commit_log_model \<Rightarrow>
          Inr (commit_log_model
                 \<lparr>exploration_id := exp_model.id' exp_model,
                  created_on := metadata_model.created_on metadata,
                  last_updated := metadata_model.last_updated metadata\<rparr>))"

text \<open>
  The datastore reads of \<^verbatim>\<open>regenerate_exp_commit_log_model\<close> when \<open>v\<close> is the rights
  version it settles on: the metadata model, rights version 1, and the rights versions
  from 2 up to the one after \<open>v\<close>, or up to \<open>version'\<close> if that comes first.
\<close>

definition regenerate_reads :: "string \<Rightarrow> int \<Rightarrow> int \<Rightarrow> datastore_op list" where
  "regenerate_reads exp_id version' v =
     [DsGet ''ExplorationSnapshotMetadataModel'' (exp_id @ ''-'' @ str_int version'),
      rights_read exp_id 1] @ map (rights_read exp_id) [2..min (v + 1) version']"

text \<open>
  Between the worlds \<open>w\<close> and \<open>w'\<close> nothing was persisted: the datastore tables are the
  same and the datastore operations issued in between are all reads.
\<close>

definition is_read :: "datastore_op \<Rightarrow> bool" where
  "is_read op =
     (case op of DsGet _ _ \<Rightarrow> True | DsPut _ _ \<Rightarrow> False | DsUpdateExploration _ _ \<Rightarrow> False)"

definition persists_nothing :: "world \<Rightarrow> world \<Rightarrow> bool" where
  "persists_nothing w w' =
     (commit_log_models w' = commit_log_models w
      \<and> rights_models w' = rights_models w
      \<and> snapshot_metadata_models w' = snapshot_metadata_models w
      \<and> (\<exists>ops. datastore_ops w' = datastore_ops w @ ops \<and> list_all is_read ops))"

definition reads_only :: "'a gen \<Rightarrow> bool" where
  "reads_only g = (\<forall>w. persists_nothing w (snd (g w)))"

section \<open>An example environment and datastore\<close>

text \<open>
  A small instance on which the statements below are evaluated. Domain objects are
  strings. Loading fails for a model whose states are \<open>corrupt\<close>; validation fails for
  the exploration \<open>invalid\<close>; the migration of the states \<open>unmigratable\<close> fails at schema
  version 2. The current schema version is 3.
\<close>

definition example_env :: "string env" where
  "example_env =
     \<lparr>CURRENT_STATE_SCHEMA_VERSION = 3,
      MIGRATION_BOT_USERNAME = ''OppiaMigrationBot'',
      CMD_MIGRATE_STATES_SCHEMA_TO_LATEST_VERSION = ''migrate_states_schema_to_latest_version'',
      rights_domain_ACTIVITY_STATUS_PRIVATE = ''private'',
      constants_ACTIVITY_STATUS_PRIVATE = ''private'',
      get_exploration_from_model =
        (\<lambda>item. if states item = ''corrupt''
                then Inl (Exn OtherException ''unsupported schema version'')
                else Inr (states item)),
      get_exploration_by_id = (\<lambda>exp_id. if exp_id = ''e3'' then Inr ''invalid'' else Inr ''valid''),
      get_exploration_rights =
        (\<lambda>exp_id strict.
           Inr (Some \<lparr>activity_rights.status = ''private'', viewable_if_private = True\<rparr>)),
      validate =
        (\<lambda>exploration strict.
           if exploration = ''invalid'' then Inl (Exn ValidationError ''no interaction specified'')
           else if exploration = ''broken'' then Inl (Exn KeyError ''content'')
           else Inr ()),
      update_states_from_model =
        (\<lambda>ves v exp_id.
           if vs_states ves = ''unmigratable'' \<and> v = 2
           then Inl (Exn OtherException ''unknown interaction'')
           else Inr (ves\<lparr>vs_states_schema_version := v + 1\<rparr>)),
      ExplorationChange = (\<lambda>change_dict. Inr ''change''),
      update_exploration = (\<lambda>committer_id exp_id change_list commit_message. Inr ()),
      states_items = (\<lambda>exploration. []),
      state_get_all_html_content_strings = (\<lambda>state. Inr []),
      exploration_get_all_html_content_strings = (\<lambda>exploration. Inr []),
      validate_math_content_attribute_in_html = (\<lambda>html_string. Inr []),
      validate_customization_args = (\<lambda>html_list. Inr []),
      literal_eval_tags =
        (\<lambda>s. if s = ''(e1, [{state_name: Intro, error_list: [], no_of_invalid_tags: 2}])''
             then Inr (''e1'', [[(''state_name'', PStr ''Intro''), (''error_list'', PList []),
                                 (''no_of_invalid_tags'', PInt 2)]])
             else Inl (Exn OtherException ''malformed node or string'')),
      literal_eval_list =
        (\<lambda>s. if s = ''[err1, Exp ID: b]'' then Inr [''err1'', ''Exp ID: b'']
             else if s = ''[err2, Exp ID: a]'' then Inr [''err2'', ''Exp ID: a'']
             else if s = ''[err3, err4, Exp ID: c]'' then Inr [''err3'', ''err4'', ''Exp ID: c'']
             else if s = ''[e1]'' then Inr [''e1'']
             else Inl (Exn OtherException ''malformed node or string'')),
      ExplorationCommitLogEntryModel_create =
        (\<lambda>exp_id v committer ctype cmessage cmds rights_status owned.
           Inr \<lparr>commit_log_model.id' = ''exploration-'' @ exp_id @ ''-'' @ str_int v,
                user_id = committer,
                commit_type = ctype,
                commit_message = cmessage,
                commit_cmds = cmds,
                version = v,
                post_commit_status = rights_status,
                post_commit_community_owned = owned,
                post_commit_is_private = (rights_status = ''private''),
                exploration_id = exp_id,
                created_on = 0,
                last_updated = 0\<rparr>),
      update_timestamps = (\<lambda>model update_last_updated_time. Inr model),
      format_value = (\<lambda>v. ''?''),
      format_datetime = str_int\<rparr>"

definition example_item :: "string \<Rightarrow> int \<Rightarrow> string \<Rightarrow> string exp_model" where
  "example_item exp_id schema_version exp_states =
     \<lparr>exp_model.id' = exp_id, deleted = False, states_schema_version = schema_version,
      states = exp_states, exp_model.version = 3, title = ''A title''\<rparr>"

definition example_metadata :: "int \<Rightarrow> metadata_model" where
  "example_metadata t =
     \<lparr>committer_id = ''u1'', metadata_model.commit_type = ''edit'',
      metadata_model.commit_message = ''Edited'', metadata_model.commit_cmds = PList [],
      metadata_model.created_on = t, metadata_model.last_updated = t\<rparr>"

definition example_rights :: "string \<Rightarrow> int \<Rightarrow> rights_model" where
  "example_rights s t = \<lparr>rights_model.status = s, community_owned = False, rights_model.created_on = t\<rparr>"

text \<open>
  Exploration \<open>e1\<close> has three rights versions, created at times 10, 20 and 40, and three
  snapshots, committed at times 10, 25 and 30; no commit log entry is stored.
\<close>

definition example_world :: world where
  "example_world =
     \<lparr>emitted = [], logged = [], datastore_ops = [],
      commit_log_models = Map.empty,
      rights_models =
        [(''e1'', 1) \<mapsto> example_rights ''private'' 10,
         (''e1'', 2) \<mapsto> example_rights ''public'' 20,
         (''e1'', 3) \<mapsto> example_rights ''private'' 40],
      snapshot_metadata_models =
        [''e1-1'' \<mapsto> example_metadata 10,
         ''e1-2'' \<mapsto> example_metadata 25,
         ''e1-3'' \<mapsto> example_metadata 30]\<rparr>"

section \<open>Properties\<close>

lemmas map_defs =
  ExplorationValidityJobManager_map_def ExplorationMigrationAuditJob_map_def
  ExplorationMigrationJobManager_map_def ExplorationRteMathContentValidationOneOffJob_map_def
  ViewableExplorationsAuditJob_map_def RTECustomizationArgsValidationOneOffJob_map_def
  RegenerateMissingExpCommitLogModels_map_def ExpCommitLogModelRegenerationValidator_map_def

lemmas reduce_defs =
  ExplorationValidityJobManager_reduce_def ExplorationMigrationAuditJob_reduce_def
  ExplorationMigrationJobManager_reduce_def
  ExplorationRteMathContentValidationOneOffJob_reduce_def
  ViewableExplorationsAuditJob_reduce_def RTECustomizationArgsValidationOneOffJob_reduce_def
  RegenerateMissingExpCommitLogModels_reduce_def
  ExpCommitLogModelRegenerationValidator_reduce_def

lemmas gen_defs = ret_def raise_def bind_def lift_def datastore_call_def yield_def logging_def
  try_except_def try_or_return_def

lemmas example_defs = example_env_def example_item_def example_world_def example_metadata_def
  example_rights_def


subsection \<open>The reducers of the migration jobs\<close>

text \<open>
  C5. The reducers of the migration jobs count: for every key and value list,
  \<^verbatim>\<open>ExplorationMigrationAuditJob.reduce\<close> yields the key with the length of the values
  when the key is \<^verbatim>\<open>'SUCCESS'\<close> and the key with the values themselves for any other
  key, and \<^verbatim>\<open>ExplorationMigrationJobManager.reduce\<close> yields the key with the length
  of the values for every key. Each yields that one pair, returns, and changes nothing
  else of the world.
\<close>

theorem migration_reducers_count:
  "ExplorationMigrationAuditJob_reduce key values w =
     (Inr (), w\<lparr>emitted := emitted w @
        [(key, if key = ''SUCCESS'' then PInt (int (length values)) else PList (map PStr values))]\<rparr>)
   \<and> ExplorationMigrationJobManager_reduce key values w =
     (Inr (), w\<lparr>emitted := emitted w @ [(key, PInt (int (length values)))]\<rparr>)"
  by (simp add: ExplorationMigrationAuditJob_reduce_def ExplorationMigrationJobManager_reduce_def
      yield_def)

subsection \<open>Deleted items\<close>

text \<open>
  C8. For every job class and every entity instance whose \<^verbatim>\<open>deleted\<close> flag is set,
  \<^verbatim>\<open>map\<close> returns at once: it yields nothing, logs nothing, and issues no datastore
  read or write. The world after the call is the world before it, whatever the
  services of the environment would answer.
\<close>

theorem deleted_item_is_skipped:
  "deleted item \<Longrightarrow> job_map j env item w = (Inr (), w)"
  by (cases j) (simp_all add: map_defs ret_def)

theorem deleted_item_is_skipped_witness:
  "deleted ((example_item ''e1'' 1 ''states'')\<lparr>deleted := True\<rparr>)
   \<and> (\<forall>j. job_map j example_env ((example_item ''e1'' 1 ''states'')\<lparr>deleted := True\<rparr>)
          example_world = (Inr (), example_world))"
proof -
  have d: "deleted ((example_item ''e1'' 1 ''states'')\<lparr>deleted := True\<rparr>)"
    by simp
  show ?thesis
    using d deleted_item_is_skipped [OF d, of _ example_env example_world] by simp
qed

subsection \<open>The pairing loop of RTECustomizationArgsValidationOneOffJob.reduce\<close>

text \<open>Python's substring test is the contiguous-sublist relation.\<close>

lemma str_contains_iff_sublist: "str_contains s sub \<longleftrightarrow> sublist sub s"
proof (induction s)
  case Nil
  show ?case by simp
next
  case (Cons c cs)
  then show ?case by (auto simp: sublist_Cons_right)
qed

lemma pairing_loop_pairs:
  "pairing_loop (pre @ concat (map (\<lambda>(e, i). [e, i]) eis)) (length pre) acc
     = Inr (acc @ map (\<lambda>(e, i). (i, e)) eis)"
proof (induction eis arbitrary: pre acc)
  case Nil
  show ?case by (subst pairing_loop.simps) simp
next
  case (Cons p eis)
  obtain e i where p: "p = (e, i)" by (cases p)
  have "pairing_loop ((pre @ [e, i]) @ concat (map (\<lambda>(e, i). [e, i]) eis))
          (length (pre @ [e, i])) (acc @ [(i, e)])
        = Inr ((acc @ [(i, e)]) @ map (\<lambda>(e, i). (i, e)) eis)"
    by (rule Cons.IH)
  then show ?case
    by (subst pairing_loop.simps) (simp add: p list_get_def nth_append)
qed

text \<open>
  On a list of even length the loop reads the indices \<open>2k + 1\<close> and \<open>2k\<close> for
  every \<open>k\<close> below half the length, all within bounds, and returns the pairs.
\<close>

lemma pairing_loop_even:
  "even index \<Longrightarrow> even (length xs) \<Longrightarrow> index \<le> length xs \<Longrightarrow>
     pairing_loop xs index acc
       = Inr (acc @ map (\<lambda>k. (xs ! (2 * k + 1), xs ! (2 * k))) [index div 2..<length xs div 2])"
proof (induction xs index acc rule: pairing_loop.induct)
  case (1 xs index acc)
  show ?case
  proof (cases "index < length xs")
    case False
    with "1.prems" have "index = length xs" by simp
    then show ?thesis by (subst pairing_loop.simps) simp
  next
    case True
    with "1.prems" have lt: "index + 1 < length xs"
      by presburger
    from "1.prems" have ev: "even (index + 2)" by simp
    from lt have le: "index + 2 \<le> length xs" by simp
    from "1.prems" True have half: "index div 2 < length xs div 2"
      by presburger
    from "1.prems" have twice: "2 * (index div 2) = index" by simp
    have "pairing_loop xs (index + 2) (acc @ [(xs ! (index + 1), xs ! index)])
        = Inr ((acc @ [(xs ! (index + 1), xs ! index)]) @
               map (\<lambda>k. (xs ! (2 * k + 1), xs ! (2 * k))) [(index + 2) div 2..<length xs div 2])"
      using "1.IH" [of "xs ! (index + 1)" "xs ! index"] True lt le ev "1.prems"(2)
      by (simp add: list_get_def)
    moreover have "[index div 2..<length xs div 2]
        = index div 2 # [(index + 2) div 2..<length xs div 2]"
      using half by (simp add: upt_conv_Cons)
    ultimately show ?thesis
      using True lt twice by (subst pairing_loop.simps) (simp add: list_get_def)
  qed
qed

lemma pairing_loop_odd:
  "index \<le> length xs \<Longrightarrow> odd (length xs - index) \<Longrightarrow>
     pairing_loop xs index acc = Inl (Exn IndexError ''list index out of range'')"
proof (induction xs index acc rule: pairing_loop.induct)
  case (1 xs index acc)
  from "1.prems" have True: "index < length xs"
    by (cases "index = length xs") auto
  show ?case
  proof (cases "index + 1 < length xs")
    case False
    with True show ?thesis by (subst pairing_loop.simps) (simp add: list_get_def)
  next
    case lt: True
    from "1.prems" lt have ev: "odd (length xs - (index + 2))"
      by presburger
    from lt have le: "index + 2 \<le> length xs" by simp
    have "pairing_loop xs (index + 2) (acc @ [(xs ! (index + 1), xs ! index)])
            = Inl (Exn IndexError ''list index out of range'')"
      using "1.IH" [of "xs ! (index + 1)" "xs ! index"] True lt le ev
      by (simp add: list_get_def)
    then show ?thesis
      using True lt by (subst pairing_loop.simps) (simp add: list_get_def)
  qed
qed

lemma list_get_last:
  "odd (length xs) \<Longrightarrow>
     list_get xs (length xs - 1) = Inr (last xs)
     \<and> list_get xs (length xs - 1 + 1) = Inl (Exn IndexError ''list index out of range'')"
  by (cases xs rule: rev_cases) (auto simp: list_get_def)

text \<open>What \<^verbatim>\<open>reduce\<close> does, by the outcome of the decoding and of the pairing loop.\<close>

lemma rte_reduce_cases:
  "RTECustomizationArgsValidationOneOffJob_reduce env key values w =
     (case map_raising (literal_eval_list env) values of
        Inl e \<Rightarrow> (Inl e, w)
      | Inr final_values \<Rightarrow>
          if str_contains key ''loading exploration''
          then (Inr (), w\<lparr>emitted := emitted w @ [(key, PList (map PStr (concat final_values)))]\<rparr>)
          else
            (case pairing_loop (concat final_values) 0 [] of
               Inl e \<Rightarrow> (Inl e, w)
             | Inr output_values \<Rightarrow>
                 (Inr (), w\<lparr>emitted := emitted w @
                    [(key, PList (map (\<lambda>(exp_id, err). PTuple [PStr exp_id, PStr err])
                                   (sort output_values)))]\<rparr>)))"
  by (simp add: RTECustomizationArgsValidationOneOffJob_reduce_def bind_def lift_def yield_def
      split: sum.splits)

text \<open>
  C9. In the pairing loop of \<^verbatim>\<open>RTECustomizationArgsValidationOneOffJob.reduce\<close> (for a
  key that does not contain \<^verbatim>\<open>'loading exploration'\<close>) every read of
  \<^verbatim>\<open>flattened_values[index]\<close> and \<^verbatim>\<open>flattened_values[index + 1]\<close> is within bounds
  when the concatenation of the decoded values has even length: the loop reads the
  indices \<open>2k + 1\<close> and \<open>2k\<close> for every \<open>k\<close> below half the length, returns these
  pairs, and \<^verbatim>\<open>reduce\<close> returns. When the length is odd, the last iteration
  starts at the last index, which is in range, and its read of
  \<^verbatim>\<open>flattened_values[index + 1]\<close> is out of range: the loop raises an IndexError, and
  so does \<^verbatim>\<open>reduce\<close>, having yielded nothing.
\<close>

theorem pairing_loop_index_bounds:
  assumes "map_raising (literal_eval_list env) values = Inr final_values"
    and "\<not> str_contains key ''loading exploration''"
  shows "(even (length (concat final_values)) \<longrightarrow>
            pairing_loop (concat final_values) 0 []
              = Inr (map (\<lambda>k. (concat final_values ! (2 * k + 1), concat final_values ! (2 * k)))
                       [0..<length (concat final_values) div 2])
            \<and> fst (RTECustomizationArgsValidationOneOffJob_reduce env key values w) = Inr ())
       \<and> (odd (length (concat final_values)) \<longrightarrow>
            pairing_loop (concat final_values) 0 []
              = Inl (Exn IndexError ''list index out of range'')
            \<and> list_get (concat final_values) (length (concat final_values) - 1)
                = Inr (last (concat final_values))
            \<and> list_get (concat final_values) (length (concat final_values) - 1 + 1)
                = Inl (Exn IndexError ''list index out of range'')
            \<and> RTECustomizationArgsValidationOneOffJob_reduce env key values w
                = (Inl (Exn IndexError ''list index out of range''), w))"
proof (intro conjI impI)
  assume ev: "even (length (concat final_values))"
  then show out: "pairing_loop (concat final_values) 0 []
      = Inr (map (\<lambda>k. (concat final_values ! (2 * k + 1), concat final_values ! (2 * k)))
               [0..<length (concat final_values) div 2])"
    using pairing_loop_even [of 0 "concat final_values" "[]"] by simp
  from assms out
  show "fst (RTECustomizationArgsValidationOneOffJob_reduce env key values w) = Inr ()"
    by (simp add: rte_reduce_cases)
next
  assume od: "odd (length (concat final_values))"
  then show loop: "pairing_loop (concat final_values) 0 []
      = Inl (Exn IndexError ''list index out of range'')"
    using pairing_loop_odd [of 0 "concat final_values" "[]"] by simp
  from list_get_last [OF od]
  show "list_get (concat final_values) (length (concat final_values) - 1)
      = Inr (last (concat final_values))"
    by (rule conjunct1)
  from list_get_last [OF od]
  show "list_get (concat final_values) (length (concat final_values) - 1 + 1)
      = Inl (Exn IndexError ''list index out of range'')"
    by (rule conjunct2)
  from assms loop show "RTECustomizationArgsValidationOneOffJob_reduce env key values w
      = (Inl (Exn IndexError ''list index out of range''), w)"
    by (simp add: rte_reduce_cases)
qed

theorem pairing_loop_index_bounds_witness:
  "map_raising (literal_eval_list example_env) [''[err1, Exp ID: b]'', ''[err2, Exp ID: a]'']
     = Inr [[''err1'', ''Exp ID: b''], [''err2'', ''Exp ID: a'']]
   \<and> map_raising (literal_eval_list example_env) [''[err3, err4, Exp ID: c]'']
     = Inr [[''err3'', ''err4'', ''Exp ID: c'']]
   \<and> \<not> str_contains ''Invalid URL'' ''loading exploration''
   \<and> even (length (concat [[''err1'', ''Exp ID: b''], [''err2'', ''Exp ID: a'']]))
   \<and> odd (length (concat [[''err3'', ''err4'', ''Exp ID: c'']]))
   \<and> fst (RTECustomizationArgsValidationOneOffJob_reduce example_env ''Invalid URL''
            [''[err1, Exp ID: b]'', ''[err2, Exp ID: a]''] example_world) = Inr ()
   \<and> RTECustomizationArgsValidationOneOffJob_reduce example_env ''Invalid URL''
        [''[err3, err4, Exp ID: c]''] example_world
      = (Inl (Exn IndexError ''list index out of range''), example_world)"
proof -
  have d1: "map_raising (literal_eval_list example_env)
      [''[err1, Exp ID: b]'', ''[err2, Exp ID: a]'']
      = Inr [[''err1'', ''Exp ID: b''], [''err2'', ''Exp ID: a'']]"
    by (simp add: example_env_def)
  have d2: "map_raising (literal_eval_list example_env) [''[err3, err4, Exp ID: c]'']
      = Inr [[''err3'', ''err4'', ''Exp ID: c'']]"
    by (simp add: example_env_def)
  have k: "\<not> str_contains ''Invalid URL'' ''loading exploration''"
    by simp
  show ?thesis
    using d1 d2 k
      pairing_loop_index_bounds [OF d1 k, of example_world]
      pairing_loop_index_bounds [OF d2 k, of example_world]
    by simp
qed

text \<open>
  C6. When \<^verbatim>\<open>RTECustomizationArgsValidationOneOffJob.reduce\<close> is called with values
  that all decode to lists whose concatenation is \<open>[e1, id1, ..., en, idn]\<close>, then for
  a key that does not contain \<^verbatim>\<open>'loading exploration'\<close> it yields exactly one pair: the
  key with the list of the tuples \<open>(id1, e1), ..., (idn, en)\<close> in ascending order (the
  sorted list that has these tuples as its elements, each as often as it occurs). For a
  key that contains \<^verbatim>\<open>'loading exploration'\<close> it yields the key with the concatenation
  of the decoded lists as it is.
\<close>

theorem rte_reduce_sorted_pairs:
  assumes "map_raising (literal_eval_list env) values = Inr final_values"
  shows "(\<not> str_contains key ''loading exploration''
            \<and> concat final_values = concat (map (\<lambda>(e, i). [e, i]) eis) \<longrightarrow>
            RTECustomizationArgsValidationOneOffJob_reduce env key values w =
              (Inr (), w\<lparr>emitted := emitted w @
                 [(key, PList (map (\<lambda>(exp_id, err). PTuple [PStr exp_id, PStr err])
                                (sort (map (\<lambda>(e, i). (i, e)) eis))))]\<rparr>)
            \<and> sorted (sort (map (\<lambda>(e, i). (i, e)) eis))
            \<and> mset (sort (map (\<lambda>(e, i). (i, e)) eis)) = mset (map (\<lambda>(e, i). (i, e)) eis))
       \<and> (str_contains key ''loading exploration'' \<longrightarrow>
            RTECustomizationArgsValidationOneOffJob_reduce env key values w =
              (Inr (), w\<lparr>emitted := emitted w @
                 [(key, PList (map PStr (concat final_values)))]\<rparr>))"
proof (intro conjI impI)
  assume a: "\<not> str_contains key ''loading exploration''
      \<and> concat final_values = concat (map (\<lambda>(e, i). [e, i]) eis)"
  have "pairing_loop (concat final_values) 0 [] = Inr (map (\<lambda>(e, i). (i, e)) eis)"
    using pairing_loop_pairs [of "[]" eis "[]"] a by simp
  with assms a show "RTECustomizationArgsValidationOneOffJob_reduce env key values w =
      (Inr (), w\<lparr>emitted := emitted w @
         [(key, PList (map (\<lambda>(exp_id, err). PTuple [PStr exp_id, PStr err])
                        (sort (map (\<lambda>(e, i). (i, e)) eis))))]\<rparr>)"
    by (simp add: rte_reduce_cases)
  show "sorted (sort (map (\<lambda>(e, i). (i, e)) eis))" by simp
  show "mset (sort (map (\<lambda>(e, i). (i, e)) eis)) = mset (map (\<lambda>(e, i). (i, e)) eis)" by simp
next
  assume "str_contains key ''loading exploration''"
  with assms show "RTECustomizationArgsValidationOneOffJob_reduce env key values w =
      (Inr (), w\<lparr>emitted := emitted w @ [(key, PList (map PStr (concat final_values)))]\<rparr>)"
    by (simp add: rte_reduce_cases)
qed

theorem rte_reduce_sorted_pairs_witness:
  "map_raising (literal_eval_list example_env) [''[err1, Exp ID: b]'', ''[err2, Exp ID: a]'']
     = Inr [[''err1'', ''Exp ID: b''], [''err2'', ''Exp ID: a'']]
   \<and> map_raising (literal_eval_list example_env) [''[e1]''] = Inr [[''e1'']]
   \<and> \<not> str_contains ''Invalid URL'' ''loading exploration''
   \<and> str_contains ''Error unsupported schema version when loading exploration''
        ''loading exploration''
   \<and> concat [[''err1'', ''Exp ID: b''], [''err2'', ''Exp ID: a'']]
       = concat (map (\<lambda>(e, i). [e, i]) [(''err1'', ''Exp ID: b''), (''err2'', ''Exp ID: a'')])
   \<and> RTECustomizationArgsValidationOneOffJob_reduce example_env ''Invalid URL''
        [''[err1, Exp ID: b]'', ''[err2, Exp ID: a]''] example_world
      = (Inr (), example_world\<lparr>emitted :=
           [(''Invalid URL'', PList [PTuple [PStr ''Exp ID: a'', PStr ''err2''],
                                    PTuple [PStr ''Exp ID: b'', PStr ''err1'']])]\<rparr>)
   \<and> RTECustomizationArgsValidationOneOffJob_reduce example_env
        ''Error unsupported schema version when loading exploration'' [''[e1]''] example_world
      = (Inr (), example_world\<lparr>emitted :=
           [(''Error unsupported schema version when loading exploration'',
             PList [PStr ''e1''])]\<rparr>)"
proof -
  have d1: "map_raising (literal_eval_list example_env)
      [''[err1, Exp ID: b]'', ''[err2, Exp ID: a]'']
      = Inr [[''err1'', ''Exp ID: b''], [''err2'', ''Exp ID: a'']]"
    by (simp add: example_env_def)
  have d2: "map_raising (literal_eval_list example_env) [''[e1]''] = Inr [[''e1'']]"
    by (simp add: example_env_def)
  have k1: "\<not> str_contains ''Invalid URL'' ''loading exploration''"
    by simp
  have k2: "str_contains ''Error unsupported schema version when loading exploration''
      ''loading exploration''"
    by simp
  have s: "sort [(''Exp ID: b'', ''err1''), (''Exp ID: a'', ''err2'')]
      = [(''Exp ID: a'', ''err2''), (''Exp ID: b'', ''err1'')]"
    by code_simp
  have e: "emitted example_world = []"
    by (simp add: example_world_def)
  show ?thesis
    using d1 d2 k1 k2 s e
      rte_reduce_sorted_pairs [OF d1, of "''Invalid URL''"
        "[(''err1'', ''Exp ID: b''), (''err2'', ''Exp ID: a'')]" example_world]
      rte_reduce_sorted_pairs [OF d2,
        of "''Error unsupported schema version when loading exploration''" "[]" example_world]
    by simp
qed

subsection \<open>regenerate\_exp\_commit\_log\_model\<close>

lemma str_int_digit [simp]:
  "str_int 1 = ''1''" "str_int 2 = ''2''" "str_int 3 = ''3''" "str_int 4 = ''4''"
  by code_simp+

lemma rights_get_nonstrict:
  "ExplorationRightsModel_get exp_id False v w =
     (Inr (rights_models w (exp_id, v)),
      w\<lparr>datastore_ops := datastore_ops w @ [rights_read exp_id v]\<rparr>)"
  by (simp add: ExplorationRightsModel_get_def rights_read_def split: option.split)

lemma created_in_time_ops [simp]:
  "created_in_time (w\<lparr>datastore_ops := ops\<rparr>) exp_id metadata v
     = created_in_time w exp_id metadata v"
  by (simp add: created_in_time_def)

text \<open>
  The loop over the rights versions \<open>a, ..., b\<close> ends with the rights model of some
  version \<open>v\<close> (or with the model it started from, when \<open>v\<close> is below \<open>a\<close>): all
  versions from \<open>a\<close> to \<open>v\<close> were created in time, version \<open>v + 1\<close> was not, and no
  version after \<open>v + 1\<close> was read.
\<close>

lemma rights_scan_upto:
  "\<exists>v. rights_scan exp_id (Some metadata) [a..b] required w =
          (Inr (if v < a then required else the (rights_models w (exp_id, v))),
           w\<lparr>datastore_ops := datastore_ops w @ map (rights_read exp_id) [a..min (v + 1) b]\<rparr>)
        \<and> a - 1 \<le> v \<and> v \<le> max b (a - 1)
        \<and> (\<forall>u. a \<le> u \<and> u \<le> v \<longrightarrow> created_in_time w exp_id metadata u)
        \<and> (v < b \<longrightarrow> \<not> created_in_time w exp_id metadata (v + 1))"
proof (induction "nat (b - a + 1)" arbitrary: a required w)
  case 0
  then have "b < a" by simp
  then have "[a..b] = []" by simp
  then show ?case using \<open>b < a\<close>
    by (intro exI [of _ "a - 1"]) auto
next
  case (Suc n)
  then have ab: "a \<le> b" by simp
  then have up: "[a..b] = a # [a + 1..b]" by (simp add: upto_rec1)
  let ?w' = "w\<lparr>datastore_ops := datastore_ops w @ [rights_read exp_id a]\<rparr>"
  show ?case
  proof (cases "created_in_time w exp_id metadata a")
    case False
    have one: "[a..min a b] = [a]" using ab by (simp add: min_def upto_rec1)
    from False have "rights_scan exp_id (Some metadata) [a..b] required w = (Inr required, ?w')"
      by (simp add: up rights_get_nonstrict created_in_time_def split: option.splits)
    with False ab one show ?thesis
      by (intro exI [of _ "a - 1"]) auto
  next
    case True
    then obtain r where r: "rights_models w (exp_id, a) = Some r"
      and intime: "rights_model.created_on r \<le> metadata_model.created_on metadata"
      by (auto simp: created_in_time_def split: option.splits)
    have step: "rights_scan exp_id (Some metadata) [a..b] required w =
                  rights_scan exp_id (Some metadata) [a + 1..b] r ?w'"
      using r intime by (simp add: up rights_get_nonstrict)
    from Suc have n: "n = nat (b - (a + 1) + 1)" by simp
    from Suc.hyps(1) [OF n, of r ?w'] obtain v where
      res: "rights_scan exp_id (Some metadata) [a + 1..b] r ?w' =
          (Inr (if v < a + 1 then r else the (rights_models ?w' (exp_id, v))),
           ?w'\<lparr>datastore_ops := datastore_ops ?w' @
                 map (rights_read exp_id) [a + 1..min (v + 1) b]\<rparr>)"
      and lo: "a + 1 - 1 \<le> v" and hi: "v \<le> max b (a + 1 - 1)"
      and all: "\<forall>u. a + 1 \<le> u \<and> u \<le> v \<longrightarrow> created_in_time ?w' exp_id metadata u"
      and stop: "v < b \<longrightarrow> \<not> created_in_time ?w' exp_id metadata (v + 1)"
      by blast
    have lst: "[a..min (v + 1) b] = a # [a + 1..min (v + 1) b]"
      using lo ab by (simp add: upto_rec1)
    have pick: "(if v < a + 1 then r else the (rights_models ?w' (exp_id, v)))
                 = (if v < a then required else the (rights_models w (exp_id, v)))"
      using lo r by (cases "v = a") auto
    have all': "\<forall>u. a \<le> u \<and> u \<le> v \<longrightarrow> created_in_time w exp_id metadata u"
    proof (intro allI impI)
      fix u assume u: "a \<le> u \<and> u \<le> v"
      show "created_in_time w exp_id metadata u"
      proof (cases "u = a")
        case True
        then show ?thesis using \<open>created_in_time w exp_id metadata a\<close> by simp
      next
        case False
        with u all show ?thesis by simp
      qed
    qed
    show ?thesis
      using step res pick lst lo hi ab all' stop
      by (intro exI [of _ v]) (simp add: max_def)
  qed
qed

text \<open>
  C10. \<^verbatim>\<open>regenerate_exp_commit_log_model(exp_model, version)\<close>, for an exploration
  whose snapshot metadata model of that version and whose rights model of version 1
  exist, takes the post-commit status and the community-owned flag of the commit log
  entry from the rights model of the greatest version \<open>v\<close> such that \<open>v\<close> is 1, or
  \<open>v\<close> is between 2 and \<open>version\<close> and the rights versions 2 to \<open>v\<close> all exist and
  were each created no later than the metadata model. The scan stops at the first
  rights version that is missing or was created later: the versions read are 2 to
  \<open>v + 1\<close> (to \<open>version\<close> when all qualify), and the result rests on version 1 when
  version 2 already fails. It returns what \<^verbatim>\<open>create\<close> gives for these values, with
  the exploration id and the two timestamps of the metadata model set.
\<close>

theorem regenerate_uses_latest_rights_created_in_time:
  assumes md: "snapshot_metadata_models w (exp_model.id' exp_model @ ''-'' @ str_int version')
                 = Some metadata"
    and r1: "rights_models w (exp_model.id' exp_model, 1) = Some rights_1"
  shows "\<exists>v rights.
      rights_version_qualifies w (exp_model.id' exp_model) metadata version' v
    \<and> (\<forall>v'. rights_version_qualifies w (exp_model.id' exp_model) metadata version' v'
             \<longrightarrow> v' \<le> v)
    \<and> rights_models w (exp_model.id' exp_model, v) = Some rights
    \<and> regenerate_exp_commit_log_model env exp_model version' w =
        (commit_log_built_from env exp_model version' metadata rights,
         w\<lparr>datastore_ops := datastore_ops w @
              regenerate_reads (exp_model.id' exp_model) version' v\<rparr>)"
proof -
  let ?id = "exp_model.id' exp_model"
  let ?w2 = "w\<lparr>datastore_ops := datastore_ops w @
      [DsGet ''ExplorationSnapshotMetadataModel'' (?id @ ''-'' @ str_int version'),
       rights_read ?id 1]\<rparr>"
  from rights_scan_upto [of ?id metadata 2 version' rights_1 ?w2] obtain v where
    res: "rights_scan ?id (Some metadata) [2..version'] rights_1 ?w2 =
          (Inr (if v < 2 then rights_1 else the (rights_models ?w2 (?id, v))),
           ?w2\<lparr>datastore_ops := datastore_ops ?w2 @
                 map (rights_read ?id) [2..min (v + 1) version']\<rparr>)"
    and lo: "2 - 1 \<le> v" and hi: "v \<le> max version' (2 - 1)"
    and all: "\<forall>u. 2 \<le> u \<and> u \<le> v \<longrightarrow> created_in_time ?w2 ?id metadata u"
    and stop: "v < version' \<longrightarrow> \<not> created_in_time ?w2 ?id metadata (v + 1)"
    by blast
  let ?rights = "if v < 2 then rights_1 else the (rights_models w (?id, v))"
  have all': "\<forall>u. 2 \<le> u \<and> u \<le> v \<longrightarrow> created_in_time w ?id metadata u"
    using all by simp
  have stop': "v < version' \<longrightarrow> \<not> created_in_time w ?id metadata (v + 1)"
    using stop by simp
  have q: "rights_version_qualifies w ?id metadata version' v"
    using lo hi all' by (auto simp: rights_version_qualifies_def max_def split: if_splits)
  have g: "\<forall>v'. rights_version_qualifies w ?id metadata version' v' \<longrightarrow> v' \<le> v"
  proof (intro allI impI, rule ccontr)
    fix v' assume qv: "rights_version_qualifies w ?id metadata version' v'" and "\<not> v' \<le> v"
    then have gt: "v < v'" by simp
    with lo qv have "2 \<le> v'" "v' \<le> version'"
      and a: "\<forall>u\<in>set [2..v']. created_in_time w ?id metadata u"
      by (auto simp: rights_version_qualifies_def)
    from gt lo have "v + 1 \<in> set [2..v']" by simp
    with a have "created_in_time w ?id metadata (v + 1)" by blast
    moreover from gt \<open>v' \<le> version'\<close> have "v < version'" by simp
    ultimately show False using stop' by simp
  qed
  have ex: "rights_models w (?id, v) = Some ?rights"
  proof (cases "v < 2")
    case True
    with lo have "v = 1" by simp
    with r1 True show ?thesis by simp
  next
    case False
    with all' have "created_in_time w ?id metadata v" by simp
    with False show ?thesis by (auto simp: created_in_time_def split: option.splits)
  qed
  have strict: "ExplorationRightsModel_get ?id True 1
         (w\<lparr>datastore_ops := datastore_ops w @
              [DsGet ''ExplorationSnapshotMetadataModel'' (?id @ ''-'' @ str_int version')]\<rparr>)
       = (Inr (Some rights_1), ?w2)"
    using r1 by (simp add: ExplorationRightsModel_get_def rights_read_def)
  have run: "regenerate_exp_commit_log_model env exp_model version' w =
        (commit_log_built_from env exp_model version' metadata ?rights,
         w\<lparr>datastore_ops := datastore_ops w @ regenerate_reads ?id version' v\<rparr>)"
    unfolding regenerate_exp_commit_log_model_def bind_def commit_log_built_from_def
      regenerate_reads_def
    using md res strict
    by (simp add: ExplorationSnapshotMetadataModel_get_by_id_def lift_def ret_def
        split: sum.splits)
  from q g ex run show ?thesis by blast
qed

theorem regenerate_uses_latest_rights_created_in_time_witness:
  "snapshot_metadata_models example_world
       (exp_model.id' (example_item ''e1'' 1 ''states'') @ ''-'' @ str_int 3)
     = Some (example_metadata 30)
   \<and> rights_models example_world (exp_model.id' (example_item ''e1'' 1 ''states''), 1)
     = Some (example_rights ''private'' 10)
   \<and> (\<exists>v rights.
        rights_version_qualifies example_world (exp_model.id' (example_item ''e1'' 1 ''states''))
          (example_metadata 30) 3 v
      \<and> (\<forall>v'. rights_version_qualifies example_world
                 (exp_model.id' (example_item ''e1'' 1 ''states'')) (example_metadata 30) 3 v'
               \<longrightarrow> v' \<le> v)
      \<and> rights_models example_world (exp_model.id' (example_item ''e1'' 1 ''states''), v)
          = Some rights
      \<and> regenerate_exp_commit_log_model example_env (example_item ''e1'' 1 ''states'') 3
          example_world =
          (commit_log_built_from example_env (example_item ''e1'' 1 ''states'') 3
             (example_metadata 30) rights,
           example_world\<lparr>datastore_ops := datastore_ops example_world @
              regenerate_reads (exp_model.id' (example_item ''e1'' 1 ''states'')) 3 v\<rparr>))"
proof -
  have md: "snapshot_metadata_models example_world
      (exp_model.id' (example_item ''e1'' 1 ''states'') @ ''-'' @ str_int 3)
      = Some (example_metadata 30)"
    by (simp add: example_world_def example_item_def)
  have r1: "rights_models example_world (exp_model.id' (example_item ''e1'' 1 ''states''), 1)
      = Some (example_rights ''private'' 10)"
    by (simp add: example_world_def example_item_def)
  from md r1 regenerate_uses_latest_rights_created_in_time [OF md r1, of example_env]
  show ?thesis by blast
qed

text \<open>
  On the example datastore the commit log entry of version 3 (committed at time 30)
  takes its status from rights version 2 (created at 20), not from version 3 (created
  at 40), and the three rights versions are read.
\<close>

lemma regenerate_example:
  "regenerate_exp_commit_log_model example_env (example_item ''e1'' 1 ''states'') 3 example_world
     = (Inr \<lparr>commit_log_model.id' = ''exploration-e1-3'', user_id = ''u1'',
             commit_type = ''edit'', commit_message = ''Edited'', commit_cmds = PList [],
             version = 3, post_commit_status = ''public'',
             post_commit_community_owned = False, post_commit_is_private = False,
             exploration_id = ''e1'', created_on = 30, last_updated = 30\<rparr>,
        example_world\<lparr>datastore_ops :=
          [DsGet ''ExplorationSnapshotMetadataModel'' ''e1-3'',
           DsGet ''ExplorationRightsModel'' ''e1-1'',
           DsGet ''ExplorationRightsModel'' ''e1-2'',
           DsGet ''ExplorationRightsModel'' ''e1-3'']\<rparr>)"
  by (simp add: regenerate_exp_commit_log_model_def gen_defs example_defs upto_rec1
      ExplorationSnapshotMetadataModel_get_by_id_def ExplorationRightsModel_get_def)

subsection \<open>ExplorationMigrationAuditJob.map\<close>

text \<open>
  The loop, started \<open>n\<close> versions below the current one, returns; it has yielded
  \<^verbatim>\<open>('SUCCESS', 1)\<close> once when it made at least one step and all \<open>n\<close> steps succeeded,
  and it has logged and yielded the error message of the first step that failed otherwise.
\<close>

lemma migration_audit_loop_steps:
  "n = nat (CURRENT_STATE_SCHEMA_VERSION env - v) \<Longrightarrow>
   migration_audit_loop env item ves v w =
     (Inr (),
      case migration_steps env (exp_model.id' item) n ves v of
        Inr _ \<Rightarrow> if 0 < n then w\<lparr>emitted := emitted w @ [(''SUCCESS'', PInt 1)]\<rparr> else w
      | Inl (k, e) \<Rightarrow>
          w\<lparr>logged := logged w @ [LogException (migration_error_message (exp_model.id' item) k e)],
            emitted := emitted w @
              [(''MIGRATION_ERROR'', PStr (migration_error_message (exp_model.id' item) k e))]\<rparr>)"
proof (induction n arbitrary: ves v w)
  case 0
  then have "\<not> v < CURRENT_STATE_SCHEMA_VERSION env" by simp
  then show ?case by (subst migration_audit_loop.simps) simp
next
  case (Suc n)
  then have lt: "v < CURRENT_STATE_SCHEMA_VERSION env" by simp
  from Suc.prems have n: "n = nat (CURRENT_STATE_SCHEMA_VERSION env - (v + 1))" by simp
  show ?case
  proof (cases "update_states_from_model env ves v (exp_model.id' item)")
    case (Inl e)
    with lt show ?thesis
      by (subst migration_audit_loop.simps)
        (simp add: migration_error_handler_def bind_def logging_def yield_def)
  next
    case (Inr ves')
    show ?thesis
    proof (cases "v + 1 = CURRENT_STATE_SCHEMA_VERSION env")
      case True
      with n have n0: "n = 0" by simp
      have stop: "migration_audit_loop env item ves' (v + 1) w' = (Inr (), w')" for w'
        using True by (subst migration_audit_loop.simps) simp
      from lt Inr True n0 stop show ?thesis
        by (subst migration_audit_loop.simps) (simp add: report_success_def yield_def)
    next
      case False
      with lt n have npos: "0 < n" by simp
      from lt Inr False npos Suc.IH [OF n, of ves' w] show ?thesis
        by (subst migration_audit_loop.simps)
          (simp add: report_success_def ret_def split: sum.splits)
    qed
  qed
qed

lemma migration_audit_map_steps:
  "\<not> deleted item \<Longrightarrow>
   ExplorationMigrationAuditJob_map env item w =
     (Inr (),
      case all_migration_steps env item of
        Inr _ \<Rightarrow>
          if states_schema_version item < CURRENT_STATE_SCHEMA_VERSION env
          then w\<lparr>emitted := emitted w @ [(''SUCCESS'', PInt 1)]\<rparr> else w
      | Inl (k, e) \<Rightarrow>
          w\<lparr>logged := logged w @ [LogException (migration_error_message (exp_model.id' item) k e)],
            emitted := emitted w @
              [(''MIGRATION_ERROR'', PStr (migration_error_message (exp_model.id' item) k e))]\<rparr>)"
  by (simp add: ExplorationMigrationAuditJob_map_def all_migration_steps_def
      migration_audit_loop_steps [OF refl] cong: sum.case_cong)

lemma all_migration_steps_at_current:
  "CURRENT_STATE_SCHEMA_VERSION env \<le> states_schema_version item \<Longrightarrow>
   all_migration_steps env item
     = Inr \<lparr>vs_states_schema_version = states_schema_version item, vs_states = states item\<rparr>"
  by (simp add: all_migration_steps_def)

lemma audit_success_count:
  "count_list (new_emissions (ExplorationMigrationAuditJob_map env item) w) (''SUCCESS'', PInt 1)
     = (if \<not> deleted item \<and> migrates env item then 1 else 0)"
proof (cases "deleted item")
  case True
  then show ?thesis
    by (simp add: ExplorationMigrationAuditJob_map_def ret_def new_emissions_def)
next
  case False
  show ?thesis
  proof (cases "all_migration_steps env item")
    case (Inl ke)
    then show ?thesis
      using False
      by (cases ke) (simp add: migration_audit_map_steps new_emissions_def migrates_def)
  next
    case (Inr ves)
    then show ?thesis
      using False by (simp add: migration_audit_map_steps new_emissions_def migrates_def)
  qed
qed

text \<open>
  C4. For every exploration model item that is not deleted,
  \<^verbatim>\<open>ExplorationMigrationAuditJob.map\<close> yields \<^verbatim>\<open>('SUCCESS', 1)\<close> exactly once if
  \<^verbatim>\<open>item.states_schema_version\<close> is below \<^verbatim>\<open>feconf.CURRENT_STATE_SCHEMA_VERSION\<close> and
  every migration step up to the current version succeeds, and not at all otherwise. An
  exploration already at (or above) the current version leaves the world as it was, so
  over any list of items the number of \<^verbatim>\<open>('SUCCESS', 1)\<close> records is the number of
  explorations the audit migrated. When a step fails, the first such step makes
  \<^verbatim>\<open>map\<close> log its message and yield it as the one record \<^verbatim>\<open>('MIGRATION_ERROR', message)\<close>,
  and \<^verbatim>\<open>map\<close> returns without a further step, a \<^verbatim>\<open>SUCCESS\<close> or an exception.
\<close>

theorem migration_audit_map_reports:
  assumes "\<not> deleted item"
  shows "count_list (new_emissions (ExplorationMigrationAuditJob_map env item) w)
           (''SUCCESS'', PInt 1) = (if migrates env item then 1 else 0)
       \<and> (migrates env item \<longrightarrow>
            ExplorationMigrationAuditJob_map env item w =
              (Inr (), w\<lparr>emitted := emitted w @ [(''SUCCESS'', PInt 1)]\<rparr>))
       \<and> (CURRENT_STATE_SCHEMA_VERSION env \<le> states_schema_version item \<longrightarrow>
            ExplorationMigrationAuditJob_map env item w = (Inr (), w))
       \<and> (all_migration_steps env item = Inl (k, e) \<longrightarrow>
            ExplorationMigrationAuditJob_map env item w =
              (Inr (),
               w\<lparr>logged := logged w @
                    [LogException (migration_error_message (exp_model.id' item) k e)],
                 emitted := emitted w @
                    [(''MIGRATION_ERROR'',
                      PStr (migration_error_message (exp_model.id' item) k e))]\<rparr>))
       \<and> sum_list (map (\<lambda>item. count_list
                          (new_emissions (ExplorationMigrationAuditJob_map env item) w)
                          (''SUCCESS'', PInt 1)) items)
           = length (filter (\<lambda>item. \<not> deleted item \<and> migrates env item) items)"
proof (intro conjI impI)
  show "count_list (new_emissions (ExplorationMigrationAuditJob_map env item) w)
      (''SUCCESS'', PInt 1) = (if migrates env item then 1 else 0)"
    using assms by (simp add: audit_success_count)
next
  assume "migrates env item"
  then show "ExplorationMigrationAuditJob_map env item w =
      (Inr (), w\<lparr>emitted := emitted w @ [(''SUCCESS'', PInt 1)]\<rparr>)"
    using assms by (auto simp: migration_audit_map_steps migrates_def split: sum.splits)
next
  assume "CURRENT_STATE_SCHEMA_VERSION env \<le> states_schema_version item"
  then show "ExplorationMigrationAuditJob_map env item w = (Inr (), w)"
    using assms by (simp add: migration_audit_map_steps all_migration_steps_at_current)
next
  assume "all_migration_steps env item = Inl (k, e)"
  then show "ExplorationMigrationAuditJob_map env item w =
      (Inr (),
       w\<lparr>logged := logged w @ [LogException (migration_error_message (exp_model.id' item) k e)],
         emitted := emitted w @
            [(''MIGRATION_ERROR'', PStr (migration_error_message (exp_model.id' item) k e))]\<rparr>)"
    using assms by (simp add: migration_audit_map_steps)
next
  show "sum_list (map (\<lambda>item. count_list
                    (new_emissions (ExplorationMigrationAuditJob_map env item) w)
                    (''SUCCESS'', PInt 1)) items)
      = length (filter (\<lambda>item. \<not> deleted item \<and> migrates env item) items)"
    by (induction items) (simp_all add: audit_success_count)
qed

lemma example_steps:
  "all_migration_steps example_env (example_item ''e1'' 1 ''states'')
     = Inr \<lparr>vs_states_schema_version = 3, vs_states = ''states''\<rparr>"
  "all_migration_steps example_env (example_item ''e2'' 1 ''unmigratable'')
     = Inl (2, Exn OtherException ''unknown interaction'')"
  by (simp_all add: all_migration_steps_def example_env_def example_item_def numeral_2_eq_2)

theorem migration_audit_map_reports_witness:
  "\<not> deleted (example_item ''e1'' 1 ''states'')
   \<and> migrates example_env (example_item ''e1'' 1 ''states'')
   \<and> ExplorationMigrationAuditJob_map example_env (example_item ''e1'' 1 ''states'') example_world
       = (Inr (), example_world\<lparr>emitted := [(''SUCCESS'', PInt 1)]\<rparr>)
   \<and> \<not> deleted (example_item ''e4'' 3 ''states'')
   \<and> CURRENT_STATE_SCHEMA_VERSION example_env \<le> states_schema_version (example_item ''e4'' 3 ''states'')
   \<and> ExplorationMigrationAuditJob_map example_env (example_item ''e4'' 3 ''states'') example_world
       = (Inr (), example_world)
   \<and> \<not> deleted (example_item ''e2'' 1 ''unmigratable'')
   \<and> all_migration_steps example_env (example_item ''e2'' 1 ''unmigratable'')
       = Inl (2, Exn OtherException ''unknown interaction'')
   \<and> ExplorationMigrationAuditJob_map example_env (example_item ''e2'' 1 ''unmigratable'')
        example_world
       = (Inr (),
          example_world
            \<lparr>logged := [LogException
               ''Exploration e2 failed migration to states v3: unknown interaction''],
             emitted := [(''MIGRATION_ERROR'',
               PStr ''Exploration e2 failed migration to states v3: unknown interaction'')]\<rparr>)"
proof -
  have d: "\<not> deleted (example_item ''e1'' 1 ''states'')"
    "\<not> deleted (example_item ''e4'' 3 ''states'')"
    "\<not> deleted (example_item ''e2'' 1 ''unmigratable'')"
    by (simp_all add: example_item_def)
  have m: "migrates example_env (example_item ''e1'' 1 ''states'')"
    by (simp add: migrates_def example_steps) (simp add: example_env_def example_item_def)
  have c: "CURRENT_STATE_SCHEMA_VERSION example_env
      \<le> states_schema_version (example_item ''e4'' 3 ''states'')"
    by (simp add: example_env_def example_item_def)
  have msg: "migration_error_message (exp_model.id' (example_item ''e2'' 1 ''unmigratable'')) 2
      (Exn OtherException ''unknown interaction'')
      = ''Exploration e2 failed migration to states v3: unknown interaction''"
    by (simp add: migration_error_message_def example_item_def)
  have w: "emitted example_world = []" "logged example_world = []"
    by (simp_all add: example_world_def)
  show ?thesis
    using d m c msg w example_steps(2)
      migration_audit_map_reports [OF d(1), of example_env example_world]
      migration_audit_map_reports [OF d(2), of example_env example_world]
      migration_audit_map_reports [OF d(3), of example_env example_world 2
        "Exn OtherException ''unknown interaction''"]
    by simp
qed

subsection \<open>The reducers\<close>

text \<open>What \<^verbatim>\<open>ExplorationRteMathContentValidationOneOffJob.reduce\<close> does, by the outcome
  of the decoding and of the loops.\<close>

lemma rte_math_reduce_cases:
  "ExplorationRteMathContentValidationOneOffJob_reduce env key values w =
     (case map_raising (literal_eval_tags env) values of
        Inl e \<Rightarrow> (Inl e, w)
      | Inr final_values \<Rightarrow>
          (case collect_invalid_tags final_values 0 [] of
             Inl e \<Rightarrow> (Inl e, w)
           | Inr (no_of_invalid_tags, invalid_tags_info) \<Rightarrow>
               (Inr (), w\<lparr>emitted := emitted w @
                  [(''Overall result.'',
                    PDict [(''no_of_explorations_with_no_svgs'', PInt (int (length final_values))),
                           (''no_of_invalid_tags'', PInt no_of_invalid_tags)]),
                   (''Detailed information on invalid tags.'', PDict invalid_tags_info)]\<rparr>)))"
  by (simp add: ExplorationRteMathContentValidationOneOffJob_reduce_def bind_def lift_def
      yield_def split: sum.splits prod.splits)

lemma emitted_append_nothing: "w\<lparr>emitted := emitted w @ []\<rparr> = (w::world)"
  by simp

lemma simple_reduce_yields_one:
  assumes "j \<noteq> ExplorationRteMathContentValidationOneOffJob"
    and "j \<noteq> RTECustomizationArgsValidationOneOffJob"
  shows "\<exists>v. \<forall>w. job_reduce j env key values w = (Inr (), w\<lparr>emitted := emitted w @ [(key, v)]\<rparr>)"
  using assms by (cases j) (auto simp: reduce_defs yield_def)

lemma rte_reduce_pure:
  "\<exists>outcome out. \<forall>w. RTECustomizationArgsValidationOneOffJob_reduce env key values w
      = (outcome, w\<lparr>emitted := emitted w @ out\<rparr>)"
proof (cases "map_raising (literal_eval_list env) values")
  case (Inl e)
  then have "\<forall>w. RTECustomizationArgsValidationOneOffJob_reduce env key values w
      = (Inl e, w\<lparr>emitted := emitted w @ []\<rparr>)"
    by (simp add: rte_reduce_cases)
  then show ?thesis by blast
next
  case (Inr final_values)
  show ?thesis
  proof (cases "str_contains key ''loading exploration''")
    case True
    with Inr have "\<forall>w. RTECustomizationArgsValidationOneOffJob_reduce env key values w
      = (Inr (), w\<lparr>emitted := emitted w @ [(key, PList (map PStr (concat final_values)))]\<rparr>)"
      by (simp add: rte_reduce_cases)
    then show ?thesis by blast
  next
    case False
    show ?thesis
    proof (cases "pairing_loop (concat final_values) 0 []")
      case (Inl e)
      with Inr False have "\<forall>w. RTECustomizationArgsValidationOneOffJob_reduce env key values w
        = (Inl e, w\<lparr>emitted := emitted w @ []\<rparr>)"
        by (simp add: rte_reduce_cases)
      then show ?thesis by blast
    next
      case (Inr output_values)
      with \<open>map_raising (literal_eval_list env) values = Inr final_values\<close> False
      have "\<forall>w. RTECustomizationArgsValidationOneOffJob_reduce env key values w
        = (Inr (), w\<lparr>emitted := emitted w @
             [(key, PList (map (\<lambda>(exp_id, err). PTuple [PStr exp_id, PStr err])
                            (sort output_values)))]\<rparr>)"
        by (simp add: rte_reduce_cases)
      then show ?thesis by blast
    qed
  qed
qed

lemma rte_math_reduce_pure:
  "\<exists>outcome out. \<forall>w. ExplorationRteMathContentValidationOneOffJob_reduce env key values w
      = (outcome, w\<lparr>emitted := emitted w @ out\<rparr>)"
proof (cases "map_raising (literal_eval_tags env) values")
  case (Inl e)
  then have "\<forall>w. ExplorationRteMathContentValidationOneOffJob_reduce env key values w
      = (Inl e, w\<lparr>emitted := emitted w @ []\<rparr>)"
    by (simp add: rte_math_reduce_cases)
  then show ?thesis by blast
next
  case (Inr final_values)
  show ?thesis
  proof (cases "collect_invalid_tags final_values 0 []")
    case (Inl e)
    with Inr have "\<forall>w. ExplorationRteMathContentValidationOneOffJob_reduce env key values w
      = (Inl e, w\<lparr>emitted := emitted w @ []\<rparr>)"
      by (simp add: rte_math_reduce_cases)
    then show ?thesis by blast
  next
    case (Inr res)
    obtain n info where res: "res = (n, info)" by (cases res)
    with Inr \<open>map_raising (literal_eval_tags env) values = Inr final_values\<close>
    have "\<forall>w. ExplorationRteMathContentValidationOneOffJob_reduce env key values w
      = (Inr (), w\<lparr>emitted := emitted w @
                  [(''Overall result.'',
                    PDict [(''no_of_explorations_with_no_svgs'', PInt (int (length final_values))),
                           (''no_of_invalid_tags'', PInt n)]),
                   (''Detailed information on invalid tags.'', PDict info)]\<rparr>)"
      by (simp add: rte_math_reduce_cases)
    then show ?thesis by blast
  qed
qed

lemma reduce_pure:
  "\<exists>outcome out. \<forall>w. job_reduce j env key values w = (outcome, w\<lparr>emitted := emitted w @ out\<rparr>)"
proof (cases "j = ExplorationRteMathContentValidationOneOffJob
    \<or> j = RTECustomizationArgsValidationOneOffJob")
  case True
  then show ?thesis
    using rte_reduce_pure [of env key "values"] rte_math_reduce_pure [of env key "values"]
    by auto
next
  case False
  then obtain v where
    "\<forall>w. job_reduce j env key values w = (Inr (), w\<lparr>emitted := emitted w @ [(key, v)]\<rparr>)"
    using simple_reduce_yields_one [of j env key "values"] by auto
  then show ?thesis by blast
qed

text \<open>
  C7. Every \<^verbatim>\<open>reduce\<close> of the file is a function of its key and values alone: for
  each job, key and value list there is one outcome (the return, or the exception
  raised) and one sequence of yielded pairs that the call produces in every world, that
  is, whatever was yielded, logged, read or stored before it, by this or by another
  invocation; and the call leaves the world as it found it but for the pairs it yields.
\<close>

theorem reduce_is_a_function_of_key_and_values:
  "\<exists>outcome out. \<forall>w. job_reduce j env key values w = (outcome, w\<lparr>emitted := emitted w @ out\<rparr>)"
  by (rule reduce_pure)





subsection \<open>Exceptions in map\<close>





subsection \<open>Datastore writes\<close>

lemma persists_nothing_refl [simp]: "persists_nothing w w"
  by (simp add: persists_nothing_def)


lemma persists_nothing_emitted [simp]: "persists_nothing w (w\<lparr>emitted := x\<rparr>)"
  by (simp add: persists_nothing_def)

lemma persists_nothing_logged [simp]: "persists_nothing w (w\<lparr>logged := x\<rparr>)"
  by (simp add: persists_nothing_def)

lemma persists_nothing_logged_emitted [simp]:
  "persists_nothing w (w\<lparr>logged := x, emitted := y\<rparr>)"
  by (simp add: persists_nothing_def)

lemma persists_nothing_read [simp]:
  "persists_nothing w (w\<lparr>datastore_ops := datastore_ops w @ [DsGet c k]\<rparr>)"
  by (simp add: persists_nothing_def is_read_def)

lemma reads_only_ret [simp]: "reads_only (ret x)"
  by (simp add: reads_only_def ret_def)

lemma reads_only_raise [simp]: "reads_only (raise e)"
  by (simp add: reads_only_def raise_def)

lemma reads_only_lift [simp]: "reads_only (lift r)"
  by (simp add: reads_only_def lift_def)

lemma reads_only_yield [simp]: "reads_only (yield kv)"
  by (simp add: reads_only_def yield_def)

lemma reads_only_logging [simp]: "reads_only (logging l)"
  by (simp add: reads_only_def logging_def)

lemma reads_only_datastore_get [simp]: "reads_only (datastore_call (DsGet c k) r)"
  by (simp add: reads_only_def datastore_call_def)














end
